theory Spec2Isabelle
  imports Main
begin

section \<open>Text, bytes and paths\<close>

text \<open>
  A Python \<open>str\<close> is a sequence of Unicode code points, modelled as a list of naturals;
  \<open>bytes\<close> (file contents, request bodies) are a list of 8-bit characters. The literals
  of \<open>app.py\<close> are ASCII and are written through \<open>str\<close>.
\<close>

type_synonym pystr = "nat list"
type_synonym bytes = "char list"

definition str :: "string \<Rightarrow> pystr" where
  "str s = map of_char s"

text \<open>
  \<open>str.isalnum()\<close>: true when the string has at least one character and every character
  is alphanumeric. On ASCII the alphanumeric characters are the digits and the letters;
  for the code points from 128 on the classification is the Unicode database's, which is
  a parameter \<open>U\<close> of the model.
\<close>

definition ascii_alnum :: "nat \<Rightarrow> bool" where
  "ascii_alnum c = (48 \<le> c \<and> c \<le> 57 \<or> 65 \<le> c \<and> c \<le> 90 \<or> 97 \<le> c \<and> c \<le> 122)"

definition char_isalnum :: "(nat \<Rightarrow> bool) \<Rightarrow> nat \<Rightarrow> bool" where
  "char_isalnum U c = (if c < 128 then ascii_alnum c else U c)"

definition isalnum :: "(nat \<Rightarrow> bool) \<Rightarrow> pystr \<Rightarrow> bool" where
  "isalnum U s = (s \<noteq> [] \<and> list_all (char_isalnum U) s)"

text \<open>
  \<open>pathlib\<close> on a POSIX host. A path is the list of its components below the root
  (\<open>BASE_DIR\<close> is resolved, hence absolute). \<open>p / s\<close> parses the segment \<open>s\<close>: it is cut
  at every \<open>/\<close>, empty components and \<open>.\<close> are dropped, \<open>..\<close> is kept as it is; a segment
  that starts with \<open>/\<close> is absolute and replaces \<open>p\<close>.
\<close>

type_synonym path = "pystr list"

fun split_acc :: "nat \<Rightarrow> pystr \<Rightarrow> pystr \<Rightarrow> pystr list" where
  "split_acc sep cur [] = [cur]"
| "split_acc sep cur (c # cs) =
     (if c = sep then cur # split_acc sep [] cs else split_acc sep (cur @ [c]) cs)"

definition split_on :: "nat \<Rightarrow> pystr \<Rightarrow> pystr list" where
  "split_on sep s = split_acc sep [] s"

definition parse_parts :: "pystr \<Rightarrow> path" where
  "parse_parts s = filter (\<lambda>p. p \<noteq> [] \<and> p \<noteq> str ''.'') (split_on 47 s)"

definition truediv :: "path \<Rightarrow> pystr \<Rightarrow> path" where
  "truediv p s = (if s \<noteq> [] \<and> hd s = 47 then parse_parts s else p @ parse_parts s)"

text \<open>\<open>str(path)\<close>: the components, each after a \<open>/\<close>.\<close>

definition str_of_path :: "path \<Rightarrow> pystr" where
  "str_of_path p = (if p = [] then str ''/'' else concat (map (\<lambda>c. 47 # c) p))"

text \<open>
  \<open>PurePath.stem\<close>: the final component without its last suffix. The suffix starts at
  the last dot of the name, unless that dot is the first or the last character.
\<close>

definition rfind :: "nat \<Rightarrow> pystr \<Rightarrow> nat option" where
  "rfind c s =
     (if c \<in> set s then Some (length s - 1 - length (takeWhile (\<lambda>x. x \<noteq> c) (rev s)))
      else None)"

definition stem_name :: "pystr \<Rightarrow> pystr" where
  "stem_name n =
     (case rfind 46 n of
        None \<Rightarrow> n
      | Some i \<Rightarrow> if 0 < i \<and> i < length n - 1 then take i n else n)"

definition stem :: "path \<Rightarrow> pystr" where
  "stem p = (if p = [] then [] else stem_name (last p))"

section \<open>The world: files and child processes\<close>

text \<open>
  The file system maps the string of a path to the file's content. \<open>procs\<close> records the
  argument vector of every \<open>subprocess.run\<close> call, in order. What the server prints to
  its own standard output is not part of the model.
\<close>

record world =
  files :: "pystr \<rightharpoonup> bytes"
  procs :: "pystr list list"

text \<open>
  The external tools (\<open>ffmpeg\<close>, \<open>overlay_processor.py\<close>) are not part of \<open>app.py\<close>: a tool
  is a parameter that, from its arguments and the files it can read, either cannot be
  started (\<open>None\<close>) or gives its exit code, the bytes captured from its standard output
  and its standard error, and what it writes to its destination, the last argument. A
  tool that runs is taken to touch no file but its destination.
\<close>

record proc_result =
  returncode :: int
  stdout :: bytes
  stderr :: bytes
  written :: "bytes option"

type_synonym tool = "pystr list \<Rightarrow> (pystr \<rightharpoonup> bytes) \<Rightarrow> proc_result option"

datatype py_exn = FileNotFoundError | IsADirectoryError | UnicodeDecodeError | OSError

text \<open>
  \<open>subprocess.run(cmd, check=True, capture_output=True)\<close>: \<open>Inl\<close> is what the call raises,
  a \<open>CalledProcessError\<close> with the captured result for a non-zero exit code, or the
  \<open>OSError\<close> of a program that cannot be started (\<open>StartError\<close>), which \<open>app.py\<close> never
  catches. The call is recorded in \<open>procs\<close> in either case.
\<close>

datatype run_error = CalledProcessError proc_result | StartError

definition subprocess_run :: "tool \<Rightarrow> pystr list \<Rightarrow> world \<Rightarrow> (run_error + proc_result) \<times> world" where
  "subprocess_run T cmd w =
     (case T cmd (files w) of
        None \<Rightarrow> (Inl StartError, w\<lparr>procs := procs w @ [cmd]\<rparr>)
      | Some r \<Rightarrow>
          (let fs = (case written r of None \<Rightarrow> files w | Some b \<Rightarrow> (files w)(last cmd \<mapsto> b));
               w' = w\<lparr>files := fs, procs := procs w @ [cmd]\<rparr>
           in (if returncode r = 0 then Inr r else Inl (CalledProcessError r), w')))"

definition exit_nonzero :: "run_error + proc_result \<Rightarrow> bool" where
  "exit_nonzero r = (case r of Inl (CalledProcessError err) \<Rightarrow> True | _ \<Rightarrow> False)"

text \<open>
  \<open>bytes.decode()\<close>: strict UTF-8. \<open>None\<close> is the \<open>UnicodeDecodeError\<close> raised for a byte
  sequence that is not well-formed: a lead byte outside \<open>00..7F\<close>, \<open>C2..F4\<close>, a missing or
  wrong continuation byte, an overlong form, a surrogate, or a code point above
  \<open>10FFFF\<close>.
\<close>

definition cont :: "nat \<Rightarrow> bool" where
  "cont c = (128 \<le> c \<and> c \<le> 191)"

fun utf8 :: "nat list \<Rightarrow> pystr option" where
  "utf8 [] = Some []"
| "utf8 (b # bs) =
     (if b < 128 then map_option ((#) b) (utf8 bs)
      else if 194 \<le> b \<and> b \<le> 223 then
        (case bs of
           c1 # r \<Rightarrow>
             if cont c1
             then map_option ((#) ((b - 192) * 64 + (c1 - 128))) (utf8 r)
             else None
         | _ \<Rightarrow> None)
      else if 224 \<le> b \<and> b \<le> 239 then
        (case bs of
           c1 # c2 # r \<Rightarrow>
             if (if b = 224 then 160 else 128) \<le> c1 \<and> c1 \<le> (if b = 237 then 159 else 191) \<and>
                cont c2
             then map_option ((#) ((b - 224) * 4096 + (c1 - 128) * 64 + (c2 - 128))) (utf8 r)
             else None
         | _ \<Rightarrow> None)
      else if 240 \<le> b \<and> b \<le> 244 then
        (case bs of
           c1 # c2 # c3 # r \<Rightarrow>
             if (if b = 240 then 144 else 128) \<le> c1 \<and> c1 \<le> (if b = 244 then 143 else 191) \<and>
                cont c2 \<and> cont c3
             then map_option
                    ((#) ((b - 240) * 262144 + (c1 - 128) * 4096 + (c2 - 128) * 64 + (c3 - 128)))
                    (utf8 r)
             else None
         | _ \<Rightarrow> None)
      else None)"

definition decode :: "bytes \<Rightarrow> pystr option" where
  "decode bs = utf8 (map of_char bs)"

text \<open>
  Consecutive \<open>os.unlink\<close> statements: the first path that does not exist raises, and the
  later statements do not run.
\<close>

fun unlinks :: "pystr list \<Rightarrow> world \<Rightarrow> py_exn option \<times> world" where
  "unlinks [] w = (None, w)"
| "unlinks (p # ps) w =
     (if files w p = None then (Some FileNotFoundError, w)
      else unlinks ps (w\<lparr>files := (files w)(p := None)\<rparr>))"

text \<open>
  \<open>tempfile.NamedTemporaryFile(delete=False)\<close> and \<open>tempfile.mkstemp\<close> create an empty
  file under a name that did not exist; \<open>save\<close> writes the upload into it.
\<close>

definition create_file :: "pystr \<Rightarrow> bytes \<Rightarrow> world \<Rightarrow> world" where
  "create_file p b w = w\<lparr>files := (files w)(p \<mapsto> b)\<rparr>"

section \<open>Requests and responses\<close>

datatype body =
    Json "(string \<times> pystr) list"
  | Raw bytes
  | Html
  | Empty

record response =
  status :: nat
  headers :: "(string \<times> string) list"
  body :: body

text \<open>\<open>jsonify(obj), code\<close>: a JSON response; \<open>jsonify(obj)\<close> alone has status 200.\<close>

definition jsonify :: "nat \<Rightarrow> (string \<times> pystr) list \<Rightarrow> response" where
  "jsonify code obj =
     \<lparr>status = code, headers = [(''Content-Type'', ''application/json'')], body = Json obj\<rparr>"

text \<open>
  What a view function does: it returns a response or lets an exception escape. Flask
  answers an escaped exception with its own 500 page.
\<close>

datatype outcome = Return response | Raise py_exn

definition internal_server_error :: response where
  "internal_server_error =
     \<lparr>status = 500, headers = [(''Content-Type'', ''text/html; charset=utf-8'')], body = Html\<rparr>"

definition finalize :: "outcome \<Rightarrow> response" where
  "finalize out = (case out of Return r \<Rightarrow> r | Raise e \<Rightarrow> internal_server_error)"

text \<open>
  The end of an \<open>except subprocess.CalledProcessError as e\<close> branch that reports the
  failure: \<open>print(..., e.stderr.decode())\<close>, then
  \<open>return jsonify({"error": msg, "details": e.stderr.decode()}), 500\<close>. The decoding comes
  first and raises when the captured bytes are not UTF-8.
\<close>

definition error_reply :: "pystr \<Rightarrow> proc_result \<Rightarrow> outcome" where
  "error_reply msg err =
     (case decode (stderr err) of
        None \<Rightarrow> Raise UnicodeDecodeError
      | Some details \<Rightarrow> Return (jsonify 500 [(''error'', msg), (''details'', details)]))"

text \<open>
  \<open>Headers.__setitem__\<close> and \<open>__contains__\<close> of werkzeug: header names compare
  without regard to case; setting a header removes every entry of that name and puts
  one entry.
\<close>

definition lower_char :: "char \<Rightarrow> char" where
  "lower_char c =
     (let n = (of_char c :: nat) in if 65 \<le> n \<and> n \<le> 90 then char_of (n + 32) else c)"

definition lower :: "string \<Rightarrow> string" where
  "lower s = map lower_char s"

definition header_in :: "string \<Rightarrow> (string \<times> string) list \<Rightarrow> bool" where
  "header_in k hs = (lower k \<in> set (map (\<lambda>(k', _). lower k') hs))"

definition header_set :: "string \<Rightarrow> string \<Rightarrow> (string \<times> string) list \<Rightarrow> (string \<times> string) list" where
  "header_set k v hs = filter (\<lambda>(k', _). lower k' \<noteq> lower k) hs @ [(k, v)]"

definition header_values :: "string \<Rightarrow> (string \<times> string) list \<Rightarrow> string list" where
  "header_values k hs = map snd (filter (\<lambda>(k', _). lower k' = lower k) hs)"

text \<open>
  What the request handling depends on besides the request: where the application is
  installed, the Unicode tables (classification and decomposition of the code points
  from 128 on), the external tools, the headers that flask-cors computes for a request
  origin, and the names drawn at random for this request (the UUID and the four
  temporary files).
\<close>

record env =
  base_dir :: path
  uni_alnum :: "nat \<Rightarrow> bool"
  uni_nfkd :: "nat \<Rightarrow> pystr"
  run_tool :: tool
  cors_extension :: "string option \<Rightarrow> (string \<times> string) list"
  uuid4 :: pystr
  tmp_in :: pystr
  tmp_interm :: pystr
  tmp_out :: pystr
  tmp_final :: pystr

text \<open>
  A request as the views see it: the view function that Flask's routing selected, the
  \<open>Origin\<close> header, the uploaded file \<open>request.files["video"]\<close> and the form field
  \<open>request.form["mask"]\<close>, each absent or present.
\<close>

datatype route =
    Index
  | Upload
  | Processed pystr
  | ProcessInline
  | HandleOptions string
  | AutomaticOptions string
  | NoRoute

record request =
  route :: route
  origin :: "string option"
  video :: "bytes option"
  mask :: "pystr option"

definition masks_dir :: "path \<Rightarrow> path" where
  "masks_dir b = truediv b (str ''masks'')"

definition overlay_script :: "path \<Rightarrow> pystr" where
  "overlay_script b = str_of_path (truediv b (str ''overlay_processor.py''))"

section \<open>\<open>/process-inline\<close>\<close>

definition mask_name_of :: "request \<Rightarrow> pystr" where
  "mask_name_of rq = (case mask rq of None \<Rightarrow> str ''cat'' | Some m \<Rightarrow> m)"

definition mask_path_of :: "path \<Rightarrow> pystr \<Rightarrow> path" where
  "mask_path_of b m = truediv (masks_dir b) (m @ str ''.png'')"

definition stage_cmd :: "pystr \<Rightarrow> pystr \<Rightarrow> pystr list" where
  "stage_cmd inp interm =
     [str ''ffmpeg'', str ''-y'', str ''-i'', inp, str ''-c:v'', str ''libx264'',
      str ''-pix_fmt'', str ''yuv420p'', str ''-preset'', str ''veryfast'',
      str ''-movflags'', str ''+faststart'', interm]"

definition overlay_cmd :: "path \<Rightarrow> pystr \<Rightarrow> pystr \<Rightarrow> pystr \<Rightarrow> pystr list" where
  "overlay_cmd b inp mk outp = [str ''python'', overlay_script b, inp, mk, outp]"

definition final_cmd :: "pystr \<Rightarrow> pystr \<Rightarrow> pystr list" where
  "final_cmd outp fin =
     [str ''ffmpeg'', str ''-y'', str ''-i'', outp, str ''-vf'', str ''fps=30'',
      str ''-c:v'', str ''libx264'', str ''-pix_fmt'', str ''yuv420p'',
      str ''-preset'', str ''veryfast'', str ''-movflags'', str ''+faststart'', fin]"

definition cors_origin :: string where
  "cors_origin = ''https://brookswimer.github.io''"

definition video_response :: "bytes \<Rightarrow> response" where
  "video_response bs =
     \<lparr>status = 200,
      headers =
        header_set ''Access-Control-Allow-Headers'' ''Content-Type''
          (header_set ''Access-Control-Allow-Methods'' ''POST, GET, OPTIONS''
            (header_set ''Access-Control-Allow-Origin'' cors_origin
              (header_set ''Content-Disposition'' ''inline; filename=processed.mp4''
                [(''Content-Type'', ''video/mp4'')]))),
      body = Raw bs\<rparr>"

text \<open>
  The three child processes of the view, each with the temporary file that is created
  just before it: the staging transcode, the overlay step and the finalization pass.
\<close>

definition staged :: "env \<Rightarrow> bytes \<Rightarrow> world \<Rightarrow> (run_error + proc_result) \<times> world" where
  "staged e src_file w =
     subprocess_run (run_tool e) (stage_cmd (tmp_in e) (tmp_interm e))
       (create_file (tmp_interm e) [] (create_file (tmp_in e) src_file w))"

definition overlaid :: "env \<Rightarrow> pystr \<Rightarrow> world \<Rightarrow> (run_error + proc_result) \<times> world" where
  "overlaid e mk w =
     subprocess_run (run_tool e) (overlay_cmd (base_dir e) (tmp_interm e) mk (tmp_out e))
       (create_file (tmp_out e) [] w)"

definition finalized :: "env \<Rightarrow> world \<Rightarrow> (run_error + proc_result) \<times> world" where
  "finalized e w =
     subprocess_run (run_tool e) (final_cmd (tmp_out e) (tmp_final e))
       (create_file (tmp_final e) [] w)"

text \<open>
  Lines 151 to 170: the file \<open>final_mp4\<close> is read, the temporary files are unlinked, and
  the bytes are returned.
\<close>

definition respond_inline :: "env \<Rightarrow> pystr \<Rightarrow> world \<Rightarrow> outcome \<times> world" where
  "respond_inline e final_mp4 w2 =
     (case files w2 final_mp4 of
        None \<Rightarrow> (Raise FileNotFoundError, w2)
      | Some video_bytes \<Rightarrow>
          (case unlinks [tmp_in e, tmp_interm e, tmp_out e] w2 of
             (Some x, w3) \<Rightarrow> (Raise x, w3)
           | (None, w3) \<Rightarrow>
               (if files w3 final_mp4 \<noteq> None \<and> final_mp4 \<noteq> tmp_out e
                then (case unlinks [final_mp4] w3 of
                        (Some x, w4) \<Rightarrow> (Raise x, w4)
                      | (None, w4) \<Rightarrow> (Return (video_response video_bytes), w4))
                else (Return (video_response video_bytes), w3))))"

text \<open>
  The finalization pass (lines 132 to 149), after the overlay step succeeded. In the
  \<open>except\<close> branch \<open>print("[WARN] ...", e.stderr.decode())\<close> runs before
  \<open>final_mp4 = output_path\<close>, so bytes that are not UTF-8 raise before the fallback.
\<close>

definition finish_inline :: "env \<Rightarrow> world \<Rightarrow> outcome \<times> world" where
  "finish_inline e w =
     (let (r, w2) = finalized e w
      in case r of
           Inl StartError \<Rightarrow> (Raise OSError, w2)
         | Inl (CalledProcessError err) \<Rightarrow>
             (case decode (stderr err) of
                None \<Rightarrow> (Raise UnicodeDecodeError, w2)
              | Some warning \<Rightarrow> respond_inline e (tmp_out e) w2)
         | Inr _ \<Rightarrow> respond_inline e (tmp_final e) w2)"

text \<open>
  The overlay step (lines 107 to 128), after the staging transcode succeeded. Inside
  the \<open>try\<close>, \<open>print(..., result.stdout.decode())\<close> follows the run; its
  \<open>UnicodeDecodeError\<close> is not a \<open>CalledProcessError\<close> and escapes. The \<open>except\<close> branch
  unlinks the three files first and then decodes the standard error.
\<close>

definition overlay_inline :: "env \<Rightarrow> pystr \<Rightarrow> world \<Rightarrow> outcome \<times> world" where
  "overlay_inline e mk w =
     (let (r, w2) = overlaid e mk w
      in case r of
           Inl StartError \<Rightarrow> (Raise OSError, w2)
         | Inl (CalledProcessError err) \<Rightarrow>
             (case unlinks [tmp_in e, tmp_interm e, tmp_out e] w2 of
                (Some x, w3) \<Rightarrow> (Raise x, w3)
              | (None, w3) \<Rightarrow> (error_reply (str ''Processing failed'') err, w3))
         | Inr result \<Rightarrow>
             (case decode (stdout result) of
                None \<Rightarrow> (Raise UnicodeDecodeError, w2)
              | Some out \<Rightarrow> finish_inline e w2))"

text \<open>
  The view (lines 67 to 104). The \<open>except\<close> branch of the staging transcode unlinks the
  two files first and then decodes the standard error.
\<close>

definition process_inline :: "env \<Rightarrow> request \<Rightarrow> world \<Rightarrow> outcome \<times> world" where
  "process_inline e rq w =
     (case video rq of
        None \<Rightarrow> (Return (jsonify 400 [(''error'', str ''No video field in form'')]), w)
      | Some src_file \<Rightarrow>
          (let mask_name = mask_name_of rq in
           if \<not> isalnum (uni_alnum e) mask_name
           then (Return (jsonify 400 [(''error'', str ''Invalid mask name'')]), w)
           else
             (let mask_path = mask_path_of (base_dir e) mask_name in
              if files w (str_of_path mask_path) = None
              then (Return (jsonify 400 [(''error'', str ''Mask not found'')]), w)
              else
                (let (r, w3) = staged e src_file w
                 in case r of
                      Inl StartError \<Rightarrow> (Raise OSError, w3)
                    | Inl (CalledProcessError err) \<Rightarrow>
                        (case unlinks [tmp_in e, tmp_interm e] w3 of
                           (Some x, w4) \<Rightarrow> (Raise x, w4)
                         | (None, w4) \<Rightarrow>
                             (error_reply (str ''Failed to convert WebM'') err, w4))
                    | Inr _ \<Rightarrow> overlay_inline e (str_of_path mask_path) w3))))"

section \<open>\<open>/upload\<close>\<close>

text \<open>
  \<open>werkzeug.utils.secure_filename\<close> on a POSIX host: NFKD normalisation and dropping of
  what is not ASCII (the decomposition of the code points from 128 on is the Unicode
  database's, a parameter \<open>N\<close>), \<open>/\<close> replaced by a space, the whitespace-separated
  words joined by \<open>_\<close>, every character outside \<open>[A-Za-z0-9_.-]\<close> removed, and dots and
  underscores stripped from both ends.
\<close>

definition ascii_fold :: "(nat \<Rightarrow> pystr) \<Rightarrow> pystr \<Rightarrow> pystr" where
  "ascii_fold N s =
     filter (\<lambda>c. c < 128) (concat (map (\<lambda>c. if c < 128 then [c] else N c) s))"

definition ascii_space :: "nat \<Rightarrow> bool" where
  "ascii_space c = (9 \<le> c \<and> c \<le> 13 \<or> 28 \<le> c \<and> c \<le> 32)"

fun words_acc :: "pystr \<Rightarrow> pystr \<Rightarrow> pystr list" where
  "words_acc cur [] = (if cur = [] then [] else [cur])"
| "words_acc cur (c # cs) =
     (if ascii_space c then (if cur = [] then [] else [cur]) @ words_acc [] cs
      else words_acc (cur @ [c]) cs)"

fun join :: "pystr \<Rightarrow> pystr list \<Rightarrow> pystr" where
  "join sep [] = []"
| "join sep [x] = x"
| "join sep (x # y # ys) = x @ sep @ join sep (y # ys)"

definition filename_char :: "nat \<Rightarrow> bool" where
  "filename_char c = (ascii_alnum c \<or> c = 95 \<or> c = 46 \<or> c = 45)"

definition strip :: "nat list \<Rightarrow> pystr \<Rightarrow> pystr" where
  "strip cs s = rev (dropWhile (\<lambda>c. c \<in> set cs) (rev (dropWhile (\<lambda>c. c \<in> set cs) s)))"

definition secure_filename :: "(nat \<Rightarrow> pystr) \<Rightarrow> pystr \<Rightarrow> pystr" where
  "secure_filename N filename =
     strip [46, 95]
       (filter filename_char
         (join (str ''_'')
           (words_acc [] (map (\<lambda>c. if c = 47 then 32 else c) (ascii_fold N filename)))))"

text \<open>
  \<open>str(uuid.uuid4())\<close>: 32 lower-case hexadecimal digits in groups of 8, 4, 4, 4 and 12,
  with a hyphen between the groups.
\<close>

definition hex_digit :: "nat \<Rightarrow> bool" where
  "hex_digit c = (48 \<le> c \<and> c \<le> 57 \<or> 97 \<le> c \<and> c \<le> 102)"

definition uuid_format :: "pystr \<Rightarrow> bool" where
  "uuid_format u =
     (length u = 36 \<and>
      list_all (\<lambda>i. if i = 8 \<or> i = 13 \<or> i = 18 \<or> i = 23 then u ! i = 45 else hex_digit (u ! i))
        [0..<36])"

definition upload_dir :: "path \<Rightarrow> path" where
  "upload_dir b = truediv b (str ''uploads'')"

definition processed_dir :: "path \<Rightarrow> path" where
  "processed_dir b = truediv b (str ''processed'')"

definition MASK_PATH :: "path \<Rightarrow> path" where
  "MASK_PATH b = truediv (truediv b (str ''masks'')) (str ''cat.png'')"

text \<open>
  The local names of the view: \<open>in_name\<close>, \<open>input_path\<close>, \<open>out_name\<close>, \<open>output_path\<close>
  and \<open>cmd\<close>, and the one child process, run once the upload is saved.
\<close>

definition in_name :: "env \<Rightarrow> pystr" where
  "in_name e = secure_filename (uni_nfkd e) (uuid4 e @ str ''.webm'')"

definition input_path :: "env \<Rightarrow> path" where
  "input_path e = truediv (upload_dir (base_dir e)) (in_name e)"

definition out_name :: "env \<Rightarrow> pystr" where
  "out_name e = stem (input_path e) @ str ''_mask.mp4''"

definition output_path :: "env \<Rightarrow> path" where
  "output_path e = truediv (processed_dir (base_dir e)) (out_name e)"

definition upload_cmd :: "env \<Rightarrow> pystr list" where
  "upload_cmd e =
     overlay_cmd (base_dir e) (str_of_path (input_path e))
       (str_of_path (MASK_PATH (base_dir e))) (str_of_path (output_path e))"

definition upload_run :: "env \<Rightarrow> bytes \<Rightarrow> world \<Rightarrow> (run_error + proc_result) \<times> world" where
  "upload_run e video_file w =
     subprocess_run (run_tool e) (upload_cmd e)
       (create_file (str_of_path (input_path e)) video_file w)"

text \<open>
  The view reads \<open>request.files["video"]\<close> and nothing else of the request. Saving to a
  path with no file name, the upload directory itself, raises. The \<open>except\<close> branch
  decodes the standard error before it builds the JSON answer.
\<close>

definition upload :: "env \<Rightarrow> request \<Rightarrow> world \<Rightarrow> outcome \<times> world" where
  "upload e rq w =
     (case video rq of
        None \<Rightarrow> (Return (jsonify 400 [(''error'', str ''No video field in form'')]), w)
      | Some video_file \<Rightarrow>
          (if input_path e = upload_dir (base_dir e) then (Raise IsADirectoryError, w)
           else
             (let (r, w2) = upload_run e video_file w
              in case r of
                   Inl StartError \<Rightarrow> (Raise OSError, w2)
                 | Inl (CalledProcessError err) \<Rightarrow>
                     (error_reply (str ''Processing failed'') err, w2)
                 | Inr _ \<Rightarrow>
                     (Return (jsonify 200 [(''processed_url'',
                                            str ''/processed/'' @ out_name e)]), w2))))"

section \<open>The other views and the response hooks\<close>

definition index :: response where
  "index = jsonify 200 [(''status'', str ''online''),
                        (''message'', str ''Face Filter API is running'')]"

definition not_found :: response where
  "not_found =
     \<lparr>status = 404, headers = [(''Content-Type'', ''text/html; charset=utf-8'')], body = Html\<rparr>"

text \<open>
  \<open>send_from_directory\<close>: the name is normalised as \<open>posixpath.normpath\<close> does, a name
  that is absolute or leaves the directory is refused, and so is one that is not a
  file. Of the headers of the file response only those the application names are kept
  in the model, here none.
\<close>

fun norm_acc :: "pystr list \<Rightarrow> pystr list \<Rightarrow> pystr list" where
  "norm_acc acc [] = acc"
| "norm_acc acc (c # cs) =
     (if c = [] \<or> c = str ''.'' then norm_acc acc cs
      else if c \<noteq> str ''..'' \<or> acc = [] \<or> last acc = str ''..''
           then norm_acc (acc @ [c]) cs
           else norm_acc (butlast acc) cs)"

definition safe_join :: "path \<Rightarrow> pystr \<Rightarrow> path option" where
  "safe_join d fname =
     (let comps = norm_acc [] (split_on 47 fname)
      in if fname \<noteq> [] \<and> hd fname = 47 then None
         else if comps \<noteq> [] \<and> hd comps = str ''..'' then None
         else Some (d @ comps))"

definition processed :: "env \<Rightarrow> pystr \<Rightarrow> world \<Rightarrow> response" where
  "processed e fname w =
     (case safe_join (processed_dir (base_dir e)) fname of
        None \<Rightarrow> not_found
      | Some p \<Rightarrow>
          (case files w (str_of_path p) of
             None \<Rightarrow> not_found
           | Some bs \<Rightarrow> \<lparr>status = 200, headers = [], body = Raw bs\<rparr>))"

text \<open>\<open>app.make_default_options_response()\<close>: an empty response with the \<open>Allow\<close> header.\<close>

definition make_default_options_response :: "string \<Rightarrow> response" where
  "make_default_options_response allow =
     \<lparr>status = 200,
      headers = [(''Content-Type'', ''text/html; charset=utf-8''), (''Allow'', allow)],
      body = Empty\<rparr>"

definition handle_options :: "string \<Rightarrow> response" where
  "handle_options allow =
     (let response = make_default_options_response allow
      in response\<lparr>headers :=
           header_set ''Access-Control-Allow-Headers'' ''Content-Type''
             (header_set ''Access-Control-Allow-Methods'' ''POST, GET, OPTIONS''
               (header_set ''Access-Control-Allow-Origin'' cors_origin (headers response)))\<rparr>)"

definition add_cors_headers :: "response \<Rightarrow> response" where
  "add_cors_headers resp =
     (if \<not> header_in ''Access-Control-Allow-Origin'' (headers resp)
      then resp\<lparr>headers :=
             header_set ''Access-Control-Allow-Methods'' ''POST, GET, OPTIONS''
               (header_set ''Access-Control-Allow-Headers'' ''Content-Type''
                 (header_set ''Access-Control-Allow-Origin'' cors_origin (headers resp)))\<rparr>
      else resp)"

text \<open>
  The hook that \<open>CORS(app, ...)\<close> of flask-cors registers: a response that already has a
  non-empty \<open>Access-Control-Allow-Origin\<close> is returned as it is; otherwise the extension
  adds the headers it computes from the request's \<open>Origin\<close>, here the parameter
  \<open>cors_extension\<close>.
\<close>

definition header_get :: "string \<Rightarrow> (string \<times> string) list \<Rightarrow> string option" where
  "header_get k hs = (case header_values k hs of [] \<Rightarrow> None | v # _ \<Rightarrow> Some v)"

definition cors_after_request :: "env \<Rightarrow> request \<Rightarrow> response \<Rightarrow> response" where
  "cors_after_request e rq resp =
     (case header_get ''Access-Control-Allow-Origin'' (headers resp) of
        Some (c # cs) \<Rightarrow> resp
      | _ \<Rightarrow> resp\<lparr>headers := headers resp @ cors_extension e (origin rq)\<rparr>)"

text \<open>
  One request through the application: the view that the routing selected, Flask's
  answer to an escaped exception, then the functions registered with \<open>after_request\<close>,
  which Flask calls in the reverse order of their registration: \<open>add_cors_headers\<close>
  first, the hook of flask-cors last. The \<open>OPTIONS\<close> routes carry the value of the
  \<open>Allow\<close> header that the routing computed.
\<close>

definition dispatch :: "env \<Rightarrow> request \<Rightarrow> world \<Rightarrow> outcome \<times> world" where
  "dispatch e rq w =
     (case route rq of
        Index \<Rightarrow> (Return index, w)
      | Upload \<Rightarrow> upload e rq w
      | Processed fname \<Rightarrow> (Return (processed e fname w), w)
      | ProcessInline \<Rightarrow> process_inline e rq w
      | HandleOptions allow \<Rightarrow> (Return (handle_options allow), w)
      | AutomaticOptions allow \<Rightarrow> (Return (make_default_options_response allow), w)
      | NoRoute \<Rightarrow> (Return not_found, w))"

definition serve :: "env \<Rightarrow> request \<Rightarrow> world \<Rightarrow> response \<times> world" where
  "serve e rq w =
     (let (out, w') = dispatch e rq w
      in (cors_after_request e rq (add_cors_headers (finalize out)), w'))"

text \<open>The values that a response carries for \<open>Access-Control-Allow-Origin\<close>.\<close>

definition allow_origin_values :: "response \<Rightarrow> string list" where
  "allow_origin_values resp = header_values ''Access-Control-Allow-Origin'' (headers resp)"

text \<open>
  What the views return before the hooks run: no value for the header, or the one
  fixed origin.
\<close>

definition origin_ok :: "response \<Rightarrow> bool" where
  "origin_ok r = (allow_origin_values r = [] \<or> allow_origin_values r = [cors_origin])"

section \<open>Validated requests\<close>

text \<open>
  A request to \<open>/process-inline\<close> passes the validation with the upload \<open>v\<close> when it has
  the file field, its mask name is alphanumeric and the mask file exists; \<open>mask_arg\<close> is
  the mask path that the overlay step then gets.
\<close>

definition mask_arg :: "env \<Rightarrow> request \<Rightarrow> pystr" where
  "mask_arg e rq = str_of_path (mask_path_of (base_dir e) (mask_name_of rq))"

definition accepted :: "env \<Rightarrow> request \<Rightarrow> world \<Rightarrow> bytes \<Rightarrow> bool" where
  "accepted e rq w v =
     (video rq = Some v \<and> isalnum (uni_alnum e) (mask_name_of rq) \<and>
      files w (mask_arg e rq) \<noteq> None)"

section \<open>Temporary names and an example deployment\<close>

text \<open>
  The names that \<open>tempfile\<close> hands out are names of files that did not exist, and each
  differs from the others, which exist when it is drawn.
\<close>

definition fresh_tmp :: "env \<Rightarrow> world \<Rightarrow> bool" where
  "fresh_tmp e w =
     (distinct [tmp_in e, tmp_interm e, tmp_out e, tmp_final e] \<and>
      list_all (\<lambda>p. files w p = None) [tmp_in e, tmp_interm e, tmp_out e, tmp_final e])"

text \<open>
  An example used to evaluate the views: the application lives in \<open>/app\<close>, the mask
  \<open>cat.png\<close> is installed, and the tools succeed and write their output except for the
  one step \<open>k\<close>, if any, which exits with code 1 and the bytes \<open>err\<close> on its standard
  error: the ASCII text \<open>boom\<close> in \<open>ex_env\<close>, and the single byte \<open>FF\<close>, which is not
  UTF-8, in \<open>ex_env_bad\<close>.
\<close>

datatype step = Staging | Overlaying | Finalizing

definition ex_step :: "pystr list \<Rightarrow> step" where
  "ex_step cmd =
     (if hd cmd = str ''python'' then Overlaying
      else if length cmd = 13 then Staging else Finalizing)"

definition ex_tool_with :: "bytes \<Rightarrow> step option \<Rightarrow> tool" where
  "ex_tool_with err k cmd fs =
     (if Some (ex_step cmd) = k
      then Some \<lparr>returncode = 1, stdout = [], stderr = err, written = None\<rparr>
      else Some \<lparr>returncode = 0, stdout = ''ok'', stderr = [],
                  written = Some (if ex_step cmd = Finalizing then ''final'' else ''video'')\<rparr>)"

definition ex_tool :: "step option \<Rightarrow> tool" where
  "ex_tool k = ex_tool_with ''boom'' k"

definition ex_env :: "step option \<Rightarrow> env" where
  "ex_env k =
     \<lparr>base_dir = [str ''app''],
      uni_alnum = (\<lambda>c. False),
      uni_nfkd = (\<lambda>c. []),
      run_tool = ex_tool k,
      cors_extension = (\<lambda>ori. []),
      uuid4 = str ''123e4567-e89b-42d3-a456-426614174000'',
      tmp_in = str ''/tmp/tmpa.webm'',
      tmp_interm = str ''/tmp/tmpb.mp4'',
      tmp_out = str ''/tmp/tmpc.mp4'',
      tmp_final = str ''/tmp/tmpd.mp4''\<rparr>"

definition ex_env_bad :: "step option \<Rightarrow> env" where
  "ex_env_bad k = (ex_env k)\<lparr>run_tool := ex_tool_with [CHR 0xFF] k\<rparr>"

definition ex_world :: world where
  "ex_world = \<lparr>files = [str ''/app/masks/cat.png'' \<mapsto> ''png''], procs = []\<rparr>"

definition ex_request :: "route \<Rightarrow> pystr option \<Rightarrow> request" where
  "ex_request rt m = \<lparr>route = rt, origin = None, video = Some ''webm'', mask = m\<rparr>"

section \<open>Basic facts\<close>

lemma str_simps: "str [] = []" "str (c # cs) = of_char c # str cs"
  by (simp_all add: str_def)

lemmas ex_defs = ex_env_def ex_env_bad_def ex_world_def ex_request_def ex_tool_def
  ex_tool_with_def ex_step_def

lemma split_acc_no_sep: "sep \<notin> set s \<Longrightarrow> split_acc sep cur s = [cur @ s]"
  by (induction s arbitrary: cur) auto

lemma truediv_component:
  "47 \<notin> set s \<Longrightarrow> s \<noteq> [] \<Longrightarrow> s \<noteq> str ''.'' \<Longrightarrow> truediv p s = p @ [s]"
  by (cases s) (auto simp: truediv_def parse_parts_def split_on_def split_acc_no_sep)

lemma masks_dir_eq: "masks_dir b = b @ [str ''masks'']"
  by (simp add: masks_dir_def truediv_component str_simps)

lemma alnum_not_sep: "char_isalnum U c \<Longrightarrow> c \<noteq> 47 \<and> c \<noteq> 46"
  by (auto simp: char_isalnum_def ascii_alnum_def split: if_splits)

lemma isalnum_no_sep: "isalnum U m \<Longrightarrow> 47 \<notin> set m \<and> 46 \<notin> set m \<and> m \<noteq> []"
  by (auto simp: isalnum_def list_all_iff dest: alnum_not_sep)

lemma isalnum_cat: "isalnum U (str ''cat'')"
  by (simp add: isalnum_def char_isalnum_def ascii_alnum_def str_simps)

section \<open>The temporary files along the inline view\<close>

lemma last_stage_cmd: "last (stage_cmd a b) = b"
  by (simp add: stage_cmd_def)
lemma last_overlay_cmd: "last (overlay_cmd b i m out) = out"
  by (simp add: overlay_cmd_def)
lemma last_final_cmd: "last (final_cmd a b) = b"
  by (simp add: final_cmd_def)

lemma fresh_tmpD:
  "fresh_tmp e w \<Longrightarrow>
     tmp_in e \<noteq> tmp_interm e \<and> tmp_in e \<noteq> tmp_out e \<and> tmp_in e \<noteq> tmp_final e \<and>
     tmp_interm e \<noteq> tmp_out e \<and> tmp_interm e \<noteq> tmp_final e \<and> tmp_out e \<noteq> tmp_final e \<and>
     files w (tmp_in e) = None \<and> files w (tmp_interm e) = None \<and>
     files w (tmp_out e) = None \<and> files w (tmp_final e) = None"
  by (auto simp: fresh_tmp_def)

lemma acceptedD:
  "accepted e rq w v \<Longrightarrow>
     video rq = Some v \<and> isalnum (uni_alnum e) (mask_name_of rq) \<and>
     files w (str_of_path (mask_path_of (base_dir e) (mask_name_of rq))) \<noteq> None"
  by (simp add: accepted_def mask_arg_def)

lemma staged_world:
  assumes f: "fresh_tmp e w"
  shows "files (snd (staged e v w)) (tmp_in e) = Some v"
    and "files (snd (staged e v w)) (tmp_interm e) \<noteq> None"
    and "(files (snd (staged e v w)))(tmp_in e := None, tmp_interm e := None) = files w"
    and "procs (snd (staged e v w)) = procs w @ [stage_cmd (tmp_in e) (tmp_interm e)]"
  using fresh_tmpD[OF f]
  by (auto simp: staged_def subprocess_run_def create_file_def Let_def last_stage_cmd fun_eq_iff
           split: option.splits)

lemma overlaid_world:
  assumes d: "tmp_in e \<noteq> tmp_out e" "tmp_interm e \<noteq> tmp_out e"
  shows "files (snd (overlaid e mk w3)) (tmp_in e) = files w3 (tmp_in e)"
    and "files (snd (overlaid e mk w3)) (tmp_interm e) = files w3 (tmp_interm e)"
    and "files (snd (overlaid e mk w3)) (tmp_out e) \<noteq> None"
    and "(files (snd (overlaid e mk w3)))(tmp_out e := None) = (files w3)(tmp_out e := None)"
    and "procs (snd (overlaid e mk w3)) =
           procs w3 @ [overlay_cmd (base_dir e) (tmp_interm e) mk (tmp_out e)]"
  using d
  by (auto simp: overlaid_def subprocess_run_def create_file_def Let_def last_overlay_cmd fun_eq_iff
           split: option.splits)

lemma finalized_world:
  assumes d: "tmp_in e \<noteq> tmp_final e" "tmp_interm e \<noteq> tmp_final e" "tmp_out e \<noteq> tmp_final e"
  shows "files (snd (finalized e w5)) (tmp_in e) = files w5 (tmp_in e)"
    and "files (snd (finalized e w5)) (tmp_interm e) = files w5 (tmp_interm e)"
    and "files (snd (finalized e w5)) (tmp_out e) = files w5 (tmp_out e)"
    and "files (snd (finalized e w5)) (tmp_final e) \<noteq> None"
    and "(files (snd (finalized e w5)))(tmp_final e := None) = (files w5)(tmp_final e := None)"
    and "procs (snd (finalized e w5)) = procs w5 @ [final_cmd (tmp_out e) (tmp_final e)]"
  using d
  by (auto simp: finalized_def subprocess_run_def create_file_def Let_def last_final_cmd fun_eq_iff
           split: option.splits)

lemma unlinks3:
  assumes "a \<noteq> b" "a \<noteq> c" "b \<noteq> c"
    and "files w a \<noteq> None" "files w b \<noteq> None" "files w c \<noteq> None"
  shows "unlinks [a, b, c] w = (None, w\<lparr>files := (files w)(a := None, b := None, c := None)\<rparr>)"
  using assms by auto

section \<open>Upload names\<close>

lemma uuid_chars:
  assumes "uuid_format u"
  shows "length u = 36" and "\<And>c. c \<in> set u \<Longrightarrow> hex_digit c \<or> c = 45" and "hex_digit (hd u)"
proof -
  from assms have l: "length u = 36"
    and a: "\<And>i. i < 36 \<Longrightarrow> (if i = 8 \<or> i = 13 \<or> i = 18 \<or> i = 23 then u ! i = 45 else hex_digit (u ! i))"
    by (auto simp: uuid_format_def list_all_iff)
  show "length u = 36" by (rule l)
  show "hex_digit c \<or> c = 45" if "c \<in> set u" for c
  proof -
    from that obtain i where "i < 36" "u ! i = c" using l by (auto simp: in_set_conv_nth)
    with a[of i] show ?thesis by (auto split: if_splits)
  qed
  from a[of 0] l show "hex_digit (hd u)" by (cases u) auto
qed

lemma words_acc_no_space:
  "\<forall>c \<in> set s. \<not> ascii_space c \<Longrightarrow> words_acc cur s = (if cur @ s = [] then [] else [cur @ s])"
  by (induction s arbitrary: cur) auto

lemma dropWhile_hd: "xs \<noteq> [] \<Longrightarrow> \<not> P (hd xs) \<Longrightarrow> dropWhile P xs = xs"
  by (cases xs) auto

lemma strip_noop:
  "s \<noteq> [] \<Longrightarrow> hd s \<notin> set cs \<Longrightarrow> last s \<notin> set cs \<Longrightarrow> strip cs s = s"
  by (simp add: strip_def dropWhile_hd hd_rev)

lemma hex_filename_char: "hex_digit c \<or> c = 45 \<Longrightarrow> filename_char c"
  by (auto simp: hex_digit_def filename_char_def ascii_alnum_def)

lemma secure_filename_plain:
  assumes "s \<noteq> []" and "\<forall>c \<in> set s. filename_char c"
    and "hd s \<noteq> 46" "hd s \<noteq> 95" "last s \<noteq> 46" "last s \<noteq> 95"
  shows "secure_filename N s = s"
proof -
  have asc: "\<forall>c \<in> set s. c < 128 \<and> c \<noteq> 47 \<and> \<not> ascii_space c"
    using assms(2) by (auto simp: filename_char_def ascii_alnum_def ascii_space_def)
  have 1: "ascii_fold N s = s"
  proof -
    have "concat (map (\<lambda>c. if c < 128 then [c] else N c) s) = concat (map (\<lambda>c. [c]) s)"
      using asc by (intro arg_cong[where f = concat] map_cong) auto
    also have "\<dots> = s" by (induction s) auto
    finally show ?thesis using asc by (simp add: ascii_fold_def)
  qed
  have 2: "map (\<lambda>c. if c = 47 then 32 else c) s = s"
    using asc by (intro map_idI) auto
  have 3: "words_acc [] s = [s]"
    using asc assms(1) by (simp add: words_acc_no_space)
  have 4: "filter filename_char s = s"
    using assms(2) by simp
  show ?thesis
    using assms by (simp add: secure_filename_def 1 2 3 4 strip_noop)
qed

lemma uuid_filename:
  assumes u: "uuid_format u"
  shows "secure_filename N (u @ str ''.webm'') = u @ str ''.webm''"
proof -
  note uc = uuid_chars[OF u]
  have ne: "u \<noteq> []" using uc(1) by auto
  have h: "hd (u @ str ''.webm'') = hd u" using ne by simp
  have "hd u \<noteq> 46 \<and> hd u \<noteq> 95" using uc(3) by (auto simp: hex_digit_def)
  moreover have "\<forall>c \<in> set u. filename_char c"
    using uc(2) hex_filename_char by blast
  then have "\<forall>c \<in> set (u @ str ''.webm''). filename_char c"
    by (auto simp: str_simps filename_char_def ascii_alnum_def)
  ultimately show ?thesis
    using h by (intro secure_filename_plain) (auto simp: str_simps)
qed

lemma rfind_last_dot:
  "c \<notin> set t \<Longrightarrow> rfind c (u @ c # t) = Some (length u)"
proof -
  assume a: "c \<notin> set t"
  have "takeWhile (\<lambda>x. x \<noteq> c) (rev t @ c # rev u) = rev t"
    using a by (simp add: takeWhile_append)
  then show ?thesis by (simp add: rfind_def)
qed

lemma stem_uuid:
  assumes u: "uuid_format u"
  shows "stem_name (u @ str ''.webm'') = u"
proof -
  have "rfind 46 (u @ 46 # str ''webm'') = Some (length u)"
    by (intro rfind_last_dot) (simp add: str_simps)
  moreover have "u @ str ''.webm'' = u @ 46 # str ''webm''" by (simp add: str_simps)
  ultimately show ?thesis
    using uuid_chars(1)[OF u] by (simp add: stem_name_def str_simps)
qed

lemma upload_dir_eq: "upload_dir b = b @ [str ''uploads'']"
  by (simp add: upload_dir_def truediv_component str_simps)
lemma processed_dir_eq: "processed_dir b = b @ [str ''processed'']"
  by (simp add: processed_dir_def truediv_component str_simps)
lemma MASK_PATH_eq: "MASK_PATH b = b @ [str ''masks'', str ''cat.png'']"
  by (simp add: MASK_PATH_def truediv_component str_simps)

lemma uuid_no_slash:
  assumes u: "uuid_format u" shows "47 \<notin> set u" "46 \<notin> set u" "u \<noteq> []"
  using uuid_chars(2)[OF u, of 47] uuid_chars(2)[OF u, of 46] uuid_chars(1)[OF u]
  by (auto simp: hex_digit_def)

lemma upload_names:
  assumes u: "uuid_format (uuid4 e)"
  shows "in_name e = uuid4 e @ str ''.webm''"
    and "input_path e = base_dir e @ [str ''uploads'', uuid4 e @ str ''.webm'']"
    and "out_name e = uuid4 e @ str ''_mask.mp4''"
    and "output_path e = base_dir e @ [str ''processed'', uuid4 e @ str ''_mask.mp4'']"
proof -
  note n = uuid_no_slash[OF u]
  show i: "in_name e = uuid4 e @ str ''.webm''"
    by (simp add: in_name_def uuid_filename[OF u])
  have "truediv (upload_dir (base_dir e)) (uuid4 e @ str ''.webm'') = upload_dir (base_dir e) @ [uuid4 e @ str ''.webm'']"
    using n by (intro truediv_component) (auto simp: str_simps)
  then show p: "input_path e = base_dir e @ [str ''uploads'', uuid4 e @ str ''.webm'']"
    by (simp add: input_path_def i upload_dir_eq)
  show o: "out_name e = uuid4 e @ str ''_mask.mp4''"
    by (simp add: out_name_def p stem_def stem_uuid[OF u])
  have "truediv (processed_dir (base_dir e)) (uuid4 e @ str ''_mask.mp4'') = processed_dir (base_dir e) @ [uuid4 e @ str ''_mask.mp4'']"
    using n by (intro truediv_component) (auto simp: str_simps)
  then show "output_path e = base_dir e @ [str ''processed'', uuid4 e @ str ''_mask.mp4'']"
    by (simp add: output_path_def o processed_dir_eq)
qed

section \<open>The paths through the views\<close>

lemma unlinks1:
  "files w a \<noteq> None \<Longrightarrow> unlinks [a] w = (None, w\<lparr>files := (files w)(a := None)\<rparr>)"
  by auto

lemma respond_fallback:
  assumes d: "tmp_in e \<noteq> tmp_interm e" "tmp_in e \<noteq> tmp_out e" "tmp_interm e \<noteq> tmp_out e"
    and x: "files w7 (tmp_in e) \<noteq> None" "files w7 (tmp_interm e) \<noteq> None"
      "files w7 (tmp_out e) = Some bs"
  shows "respond_inline e (tmp_out e) w7 =
           (Return (video_response bs),
            w7\<lparr>files := (files w7)(tmp_in e := None, tmp_interm e := None, tmp_out e := None)\<rparr>)"
proof -
  have ul: "unlinks [tmp_in e, tmp_interm e, tmp_out e] w7 =
      (None, w7\<lparr>files := (files w7)(tmp_in e := None, tmp_interm e := None, tmp_out e := None)\<rparr>)"
    using d x by (intro unlinks3) auto
  show ?thesis
    unfolding respond_inline_def by (simp add: x ul del: unlinks.simps)
qed

lemma respond_final:
  assumes d: "tmp_in e \<noteq> tmp_interm e" "tmp_in e \<noteq> tmp_out e" "tmp_in e \<noteq> tmp_final e"
      "tmp_interm e \<noteq> tmp_out e" "tmp_interm e \<noteq> tmp_final e" "tmp_out e \<noteq> tmp_final e"
    and x: "files w7 (tmp_in e) \<noteq> None" "files w7 (tmp_interm e) \<noteq> None"
      "files w7 (tmp_out e) \<noteq> None" "files w7 (tmp_final e) = Some bs"
  shows "respond_inline e (tmp_final e) w7 =
           (Return (video_response bs),
            w7\<lparr>files := (files w7)(tmp_in e := None, tmp_interm e := None, tmp_out e := None,
                                     tmp_final e := None)\<rparr>)"
proof -
  have ul: "unlinks [tmp_in e, tmp_interm e, tmp_out e] w7 =
      (None, w7\<lparr>files := (files w7)(tmp_in e := None, tmp_interm e := None, tmp_out e := None)\<rparr>)"
    using d x by (intro unlinks3) auto
  have ul1: "unlinks [tmp_final e]
      (w7\<lparr>files := (files w7)(tmp_in e := None, tmp_interm e := None, tmp_out e := None)\<rparr>) =
      (None, w7\<lparr>files := (files w7)(tmp_in e := None, tmp_interm e := None, tmp_out e := None,
                               tmp_final e := None)\<rparr>)"
    using d x by simp
  show ?thesis
    unfolding respond_inline_def using d x
    by (simp add: ul ul1 del: unlinks.simps)
qed

lemma finish_fallback:
  assumes d: "tmp_in e \<noteq> tmp_interm e" "tmp_in e \<noteq> tmp_out e" "tmp_in e \<noteq> tmp_final e"
      "tmp_interm e \<noteq> tmp_out e" "tmp_interm e \<noteq> tmp_final e" "tmp_out e \<noteq> tmp_final e"
    and x: "files w5 (tmp_in e) \<noteq> None" "files w5 (tmp_interm e) \<noteq> None"
      "files w5 (tmp_out e) = Some bs"
    and s: "fst (finalized e w5) = Inl (CalledProcessError err)"
    and t: "decode (stderr err) = Some warning"
  shows "fst (finish_inline e w5) = Return (video_response bs)"
    and "files (snd (finish_inline e w5)) (tmp_final e) \<noteq> None"
    and "procs (snd (finish_inline e w5)) = procs w5 @ [final_cmd (tmp_out e) (tmp_final e)]"
proof -
  obtain w7 where fi: "finalized e w5 = (Inl (CalledProcessError err), w7)"
    using s by (cases "finalized e w5") auto
  have fw: "files w7 (tmp_in e) \<noteq> None" "files w7 (tmp_interm e) \<noteq> None"
      "files w7 (tmp_out e) = Some bs" "files w7 (tmp_final e) \<noteq> None"
      "procs w7 = procs w5 @ [final_cmd (tmp_out e) (tmp_final e)]"
    using finalized_world[OF d(3,5,6), of w5] fi x by simp_all
  have r: "finish_inline e w5 = (Return (video_response bs),
      w7\<lparr>files := (files w7)(tmp_in e := None, tmp_interm e := None, tmp_out e := None)\<rparr>)"
    unfolding finish_inline_def
    using respond_fallback[of e w7 bs] d fw by (simp add: fi t)
  show "fst (finish_inline e w5) = Return (video_response bs)" by (simp add: r)
  show "files (snd (finish_inline e w5)) (tmp_final e) \<noteq> None" using d fw by (simp add: r)
  show "procs (snd (finish_inline e w5)) = procs w5 @ [final_cmd (tmp_out e) (tmp_final e)]"
    using fw by (simp add: r)
qed

lemma finish_undecodable:
  assumes s: "fst (finalized e w5) = Inl (CalledProcessError err)"
    and t: "decode (stderr err) = None"
  shows "finish_inline e w5 = (Raise UnicodeDecodeError, snd (finalized e w5))"
proof -
  obtain w7 where fi: "finalized e w5 = (Inl (CalledProcessError err), w7)"
    using s by (cases "finalized e w5") auto
  show ?thesis
    unfolding finish_inline_def by (simp add: fi t)
qed

lemma finish_success:
  assumes d: "tmp_in e \<noteq> tmp_interm e" "tmp_in e \<noteq> tmp_out e" "tmp_in e \<noteq> tmp_final e"
      "tmp_interm e \<noteq> tmp_out e" "tmp_interm e \<noteq> tmp_final e" "tmp_out e \<noteq> tmp_final e"
    and x: "files w5 (tmp_in e) \<noteq> None" "files w5 (tmp_interm e) \<noteq> None"
      "files w5 (tmp_out e) \<noteq> None"
    and s: "fst (finalized e w5) = Inr ok"
  shows "\<exists>bs. fst (finish_inline e w5) = Return (video_response bs)"
    and "files (snd (finish_inline e w5)) =
           (files w5)(tmp_in e := None, tmp_interm e := None, tmp_out e := None,
                      tmp_final e := None)"
proof -
  obtain w7 where fi: "finalized e w5 = (Inr ok, w7)"
    using s by (cases "finalized e w5") auto
  have fw: "files w7 (tmp_in e) \<noteq> None" "files w7 (tmp_interm e) \<noteq> None"
      "files w7 (tmp_out e) \<noteq> None" "files w7 (tmp_final e) \<noteq> None"
      "(files w7)(tmp_final e := None) = (files w5)(tmp_final e := None)"
    using finalized_world[OF d(3,5,6), of w5] fi x by simp_all
  then obtain bs where bs: "files w7 (tmp_final e) = Some bs"
    by blast
  have r: "finish_inline e w5 = (Return (video_response bs),
      w7\<lparr>files := (files w7)(tmp_in e := None, tmp_interm e := None, tmp_out e := None,
                               tmp_final e := None)\<rparr>)"
    unfolding finish_inline_def
    using respond_final[of e w7 bs] d fw bs by (simp add: fi)
  show "\<exists>bs. fst (finish_inline e w5) = Return (video_response bs)"
    by (rule exI[of _ bs]) (simp add: r)
  have "(files w7)(tmp_in e := None, tmp_interm e := None, tmp_out e := None, tmp_final e := None) =
        ((files w7)(tmp_final e := None))(tmp_in e := None, tmp_interm e := None, tmp_out e := None)"
    using d by (auto simp: fun_eq_iff)
  also have "\<dots> = (files w5)(tmp_in e := None, tmp_interm e := None, tmp_out e := None,
                      tmp_final e := None)"
    using d by (auto simp: fw(5) fun_eq_iff)
  finally show "files (snd (finish_inline e w5)) =
           (files w5)(tmp_in e := None, tmp_interm e := None, tmp_out e := None,
                      tmp_final e := None)"
    by (simp add: r)
qed

lemma staged_fail_cleanup:
  assumes f: "fresh_tmp e w"
  shows "unlinks [tmp_in e, tmp_interm e] (snd (staged e v w)) =
           (None, w\<lparr>procs := procs w @ [stage_cmd (tmp_in e) (tmp_interm e)]\<rparr>)"
proof -
  note d = fresh_tmpD[OF f]
  have eq: "(files w)(tmp_in e := None, tmp_interm e := None) = files w"
    using d by (auto simp: fun_eq_iff)
  show ?thesis
    using d eq
    by (auto simp: staged_def subprocess_run_def create_file_def Let_def last_stage_cmd
             split: option.splits)
qed

lemma inline_stage_failure:
  assumes f: "fresh_tmp e w" and a: "accepted e rq w v"
    and s: "fst (staged e v w) = Inl (CalledProcessError err)"
  shows "process_inline e rq w =
           (error_reply (str ''Failed to convert WebM'') err,
            w\<lparr>procs := procs w @ [stage_cmd (tmp_in e) (tmp_interm e)]\<rparr>)"
proof -
  obtain w3 where st: "staged e v w = (Inl (CalledProcessError err), w3)"
    using s by (cases "staged e v w") auto
  have cl: "unlinks [tmp_in e, tmp_interm e] w3 =
              (None, w\<lparr>procs := procs w @ [stage_cmd (tmp_in e) (tmp_interm e)]\<rparr>)"
    using staged_fail_cleanup[OF f, of v] st by simp
  show ?thesis
    using acceptedD[OF a] unfolding process_inline_def
    by (auto simp add: st cl Let_def simp del: unlinks.simps)
qed

lemma inline_overlay_failure:
  assumes f: "fresh_tmp e w" and a: "accepted e rq w v"
    and s: "fst (staged e v w) = Inr r1"
    and o: "fst (overlaid e (mask_arg e rq) (snd (staged e v w))) = Inl (CalledProcessError err)"
  shows "process_inline e rq w =
           (error_reply (str ''Processing failed'') err,
            w\<lparr>procs := procs w @ [stage_cmd (tmp_in e) (tmp_interm e),
                 overlay_cmd (base_dir e) (tmp_interm e) (mask_arg e rq) (tmp_out e)]\<rparr>)"
proof -
  note d = fresh_tmpD[OF f]
  obtain w3 where st: "staged e v w = (Inr r1, w3)"
    using s by (cases "staged e v w") auto
  have sw: "files w3 (tmp_in e) = Some v" "files w3 (tmp_interm e) \<noteq> None"
      "(files w3)(tmp_in e := None, tmp_interm e := None) = files w"
      "procs w3 = procs w @ [stage_cmd (tmp_in e) (tmp_interm e)]"
    using staged_world[OF f, of v] st by simp_all
  obtain w5 where ov: "overlaid e (mask_arg e rq) w3 = (Inl (CalledProcessError err), w5)"
    using o st by (cases "overlaid e (mask_arg e rq) w3") auto
  have ow: "files w5 (tmp_in e) \<noteq> None" "files w5 (tmp_interm e) \<noteq> None"
      "files w5 (tmp_out e) \<noteq> None"
      "(files w5)(tmp_out e := None) = (files w3)(tmp_out e := None)"
      "procs w5 = procs w3 @ [overlay_cmd (base_dir e) (tmp_interm e) (mask_arg e rq) (tmp_out e)]"
    using overlaid_world[of e "mask_arg e rq" w3] d ov sw by simp_all
  have "(files w5)(tmp_in e := None, tmp_interm e := None, tmp_out e := None) =
        ((files w5)(tmp_out e := None))(tmp_in e := None, tmp_interm e := None)"
    using d by (auto simp: fun_eq_iff)
  also have "\<dots> = ((files w3)(tmp_in e := None, tmp_interm e := None))(tmp_out e := None)"
    using d by (auto simp: ow(4) fun_eq_iff)
  also have "\<dots> = files w"
    using d by (auto simp: sw(3) fun_eq_iff)
  finally have fs: "(files w5)(tmp_in e := None, tmp_interm e := None, tmp_out e := None) = files w" .
  have "unlinks [tmp_in e, tmp_interm e, tmp_out e] w5 =
      (None, w5\<lparr>files := (files w5)(tmp_in e := None, tmp_interm e := None, tmp_out e := None)\<rparr>)"
    using d ow by (intro unlinks3) auto
  then have cl: "unlinks [tmp_in e, tmp_interm e, tmp_out e] w5 = (None, w5\<lparr>files := files w\<rparr>)"
    by (simp add: fs)
  have ov': "overlaid e (str_of_path (mask_path_of (base_dir e) (mask_name_of rq))) w3 =
      (Inl (CalledProcessError err), w5)"
    using ov by (simp add: mask_arg_def)
  have "process_inline e rq w =
      (error_reply (str ''Processing failed'') err, w5\<lparr>files := files w\<rparr>)"
    using acceptedD[OF a] unfolding process_inline_def overlay_inline_def
    by (auto simp add: st ov' cl Let_def simp del: unlinks.simps)
  moreover have "w5\<lparr>files := files w\<rparr> =
      w\<lparr>procs := procs w @ [stage_cmd (tmp_in e) (tmp_interm e),
           overlay_cmd (base_dir e) (tmp_interm e) (mask_arg e rq) (tmp_out e)]\<rparr>"
    using ow(5) sw(4) by (cases w; cases w5) simp
  ultimately show ?thesis
    by simp
qed

lemma status_error_reply: "status (finalize (error_reply msg err)) = 500"
  by (simp add: error_reply_def finalize_def jsonify_def internal_server_error_def
        split: option.splits)


lemma unlinks_procs: "procs (snd (unlinks ps w)) = procs w"
  by (induction ps arbitrary: w) auto

lemma unlinks_procsD: "unlinks ps w = (x, w') \<Longrightarrow> procs w' = procs w"
  using unlinks_procs[of ps w] by simp

lemma subprocess_run_procs: "procs (snd (subprocess_run T cmd w)) = procs w @ [cmd]"
  by (simp add: subprocess_run_def Let_def split: option.splits)

lemma respond_inline_procs: "procs (snd (respond_inline e p w)) = procs w"
  unfolding respond_inline_def
  by (auto simp add: Let_def simp del: unlinks.simps
           split: option.splits prod.splits dest!: unlinks_procsD)

lemma finish_inline_procs:
  "procs (snd (finish_inline e w)) = procs w @ [final_cmd (tmp_out e) (tmp_final e)]"
proof -
  obtain r w2 where fi: "finalized e w = (r, w2)"
    by (cases "finalized e w")
  have p: "procs w2 = procs w @ [final_cmd (tmp_out e) (tmp_final e)]"
    using fi subprocess_run_procs[of "run_tool e" "final_cmd (tmp_out e) (tmp_final e)"
        "create_file (tmp_final e) [] w"]
    by (simp add: finalized_def create_file_def)
  show ?thesis
    unfolding finish_inline_def
    using p
    by (auto simp add: fi respond_inline_procs
             split: option.splits sum.splits run_error.splits)
qed

lemma overlay_inline_procs:
  "\<exists>n\<le>2. procs (snd (overlay_inline e mk w)) =
      procs w @ take n [overlay_cmd (base_dir e) (tmp_interm e) mk (tmp_out e),
                        final_cmd (tmp_out e) (tmp_final e)]"
proof -
  obtain r w2 where ov: "overlaid e mk w = (r, w2)"
    by (cases "overlaid e mk w")
  have p: "procs w2 = procs w @ [overlay_cmd (base_dir e) (tmp_interm e) mk (tmp_out e)]"
    using ov subprocess_run_procs[of "run_tool e" "overlay_cmd (base_dir e) (tmp_interm e) mk (tmp_out e)"
        "create_file (tmp_out e) [] w"]
    by (simp add: overlaid_def create_file_def)
  have "procs (snd (overlay_inline e mk w)) = procs w2 \<or>
        procs (snd (overlay_inline e mk w)) = procs (snd (finish_inline e w2))"
    unfolding overlay_inline_def
    by (auto simp add: ov Let_def simp del: unlinks.simps
             split: option.splits prod.splits sum.splits run_error.splits
             dest!: unlinks_procsD)
  then show ?thesis
  proof
    assume "procs (snd (overlay_inline e mk w)) = procs w2"
    then show ?thesis
      using p by (intro exI[of _ 1]) simp
  next
    assume "procs (snd (overlay_inline e mk w)) = procs (snd (finish_inline e w2))"
    then show ?thesis
      using p finish_inline_procs[of e w2] by (intro exI[of _ 2]) simp
  qed
qed

lemma process_inline_procs:
  "\<exists>n\<le>3. procs (snd (process_inline e rq w)) =
      procs w @ take n [stage_cmd (tmp_in e) (tmp_interm e),
                        overlay_cmd (base_dir e) (tmp_interm e) (mask_arg e rq) (tmp_out e),
                        final_cmd (tmp_out e) (tmp_final e)]"
proof (cases "\<exists>v. accepted e rq w v")
  case False
  then have "snd (process_inline e rq w) = w"
    unfolding process_inline_def accepted_def mask_arg_def
    by (auto simp: Let_def split: option.splits)
  then show ?thesis
    by (intro exI[of _ 0]) simp
next
  case True
  then obtain v where a: "accepted e rq w v" by blast
  note ad = acceptedD[OF a]
  obtain r w3 where st: "staged e v w = (r, w3)"
    by (cases "staged e v w")
  have p: "procs w3 = procs w @ [stage_cmd (tmp_in e) (tmp_interm e)]"
    using st subprocess_run_procs[of "run_tool e" "stage_cmd (tmp_in e) (tmp_interm e)"
        "create_file (tmp_interm e) [] (create_file (tmp_in e) v w)"]
    by (simp add: staged_def create_file_def)
  show ?thesis
  proof (cases r)
    case (Inl err)
    then have "procs (snd (process_inline e rq w)) = procs w3"
      using ad unfolding process_inline_def
      by (auto simp add: st Let_def simp del: unlinks.simps
               split: option.splits prod.splits run_error.splits dest!: unlinks_procsD)
    then show ?thesis
      using p by (intro exI[of _ 1]) simp
  next
    case (Inr ok)
    then have e1: "snd (process_inline e rq w) = snd (overlay_inline e (mask_arg e rq) w3)"
      using ad unfolding process_inline_def
      by (auto simp add: st Let_def mask_arg_def)
    from overlay_inline_procs[of e "mask_arg e rq" w3]
    obtain n where n: "n \<le> 2" "procs (snd (overlay_inline e (mask_arg e rq) w3)) =
        procs w3 @ take n [overlay_cmd (base_dir e) (tmp_interm e) (mask_arg e rq) (tmp_out e),
                        final_cmd (tmp_out e) (tmp_final e)]"
      by blast
    show ?thesis
      using n p e1 by (intro exI[of _ "Suc n"]) simp
  qed
qed

lemma upload_procs:
  "\<exists>n\<le>1. procs (snd (upload e rq w)) = procs w @ take n [upload_cmd e]"
proof (cases "\<exists>v. video rq = Some v \<and> input_path e \<noteq> upload_dir (base_dir e)")
  case False
  then have "snd (upload e rq w) = w"
    unfolding upload_def by (auto split: option.splits)
  then show ?thesis
    by (intro exI[of _ 0]) simp
next
  case True
  then obtain v where v: "video rq = Some v" "input_path e \<noteq> upload_dir (base_dir e)"
    by blast
  have "snd (upload e rq w) = snd (upload_run e v w)"
    unfolding upload_def using v
    by (auto simp: Let_def split: prod.splits sum.splits run_error.splits)
  then show ?thesis
    by (intro exI[of _ 1]) (simp add: upload_run_def subprocess_run_procs create_file_def)
qed

lemma inline_to_finish:
  assumes f: "fresh_tmp e w" and a: "accepted e rq w v"
    and s: "fst (staged e v w) = Inr r1"
    and o: "fst (overlaid e (mask_arg e rq) (snd (staged e v w))) = Inr r2"
    and t: "decode (stdout r2) = Some out"
  shows "process_inline e rq w =
           finish_inline e (snd (overlaid e (mask_arg e rq) (snd (staged e v w))))"
    and "files (snd (overlaid e (mask_arg e rq) (snd (staged e v w)))) (tmp_in e) \<noteq> None"
    and "files (snd (overlaid e (mask_arg e rq) (snd (staged e v w)))) (tmp_interm e) \<noteq> None"
    and "files (snd (overlaid e (mask_arg e rq) (snd (staged e v w)))) (tmp_out e) \<noteq> None"
    and "(files (snd (overlaid e (mask_arg e rq) (snd (staged e v w)))))
           (tmp_in e := None, tmp_interm e := None, tmp_out e := None) = files w"
proof -
  note d = fresh_tmpD[OF f]
  obtain w3 where st: "staged e v w = (Inr r1, w3)"
    using s by (cases "staged e v w") auto
  have sw: "files w3 (tmp_in e) = Some v" "files w3 (tmp_interm e) \<noteq> None"
      "(files w3)(tmp_in e := None, tmp_interm e := None) = files w"
    using staged_world[OF f, of v] st by simp_all
  obtain w5 where ov: "overlaid e (mask_arg e rq) w3 = (Inr r2, w5)"
    using o st by (cases "overlaid e (mask_arg e rq) w3") auto
  have ow: "files w5 (tmp_in e) \<noteq> None" "files w5 (tmp_interm e) \<noteq> None"
      "files w5 (tmp_out e) \<noteq> None"
      "(files w5)(tmp_out e := None) = (files w3)(tmp_out e := None)"
    using overlaid_world[of e "mask_arg e rq" w3] d ov sw by simp_all
  have ov': "overlaid e (str_of_path (mask_path_of (base_dir e) (mask_name_of rq))) w3 = (Inr r2, w5)"
    using ov by (simp add: mask_arg_def)
  have "process_inline e rq w = finish_inline e w5"
    using acceptedD[OF a] unfolding process_inline_def overlay_inline_def
    by (auto simp add: st ov' t Let_def)
  then show "process_inline e rq w =
           finish_inline e (snd (overlaid e (mask_arg e rq) (snd (staged e v w))))"
    by (simp add: st ov)
  show "files (snd (overlaid e (mask_arg e rq) (snd (staged e v w)))) (tmp_in e) \<noteq> None"
    "files (snd (overlaid e (mask_arg e rq) (snd (staged e v w)))) (tmp_interm e) \<noteq> None"
    "files (snd (overlaid e (mask_arg e rq) (snd (staged e v w)))) (tmp_out e) \<noteq> None"
    using ow by (simp_all add: st ov)
  have "(files w5)(tmp_in e := None, tmp_interm e := None, tmp_out e := None) =
        ((files w5)(tmp_out e := None))(tmp_in e := None, tmp_interm e := None)"
    using d by (auto simp: fun_eq_iff)
  also have "\<dots> = ((files w3)(tmp_in e := None, tmp_interm e := None))(tmp_out e := None)"
    using d by (auto simp: ow(4) fun_eq_iff)
  also have "\<dots> = files w"
    using d by (auto simp: sw(3) fun_eq_iff)
  finally show "(files (snd (overlaid e (mask_arg e rq) (snd (staged e v w)))))
           (tmp_in e := None, tmp_interm e := None, tmp_out e := None) = files w"
    by (simp add: st ov)
qed

lemma inline_fallback:
  assumes f: "fresh_tmp e w" and a: "accepted e rq w v"
    and s: "fst (staged e v w) = Inr r1"
    and o: "fst (overlaid e (mask_arg e rq) (snd (staged e v w))) = Inr r2"
    and t: "decode (stdout r2) = Some out"
    and fi: "fst (finalized e (snd (overlaid e (mask_arg e rq) (snd (staged e v w))))) =
               Inl (CalledProcessError r3)"
    and t3: "decode (stderr r3) = Some warning"
  shows "\<exists>bs. files (snd (overlaid e (mask_arg e rq) (snd (staged e v w)))) (tmp_out e) = Some bs \<and>
           fst (process_inline e rq w) = Return (video_response bs)"
    and "files (snd (process_inline e rq w)) (tmp_final e) \<noteq> None"
proof -
  note d = fresh_tmpD[OF f]
  note i = inline_to_finish[OF f a s o t]
  from i(4) obtain bs where
    bs: "files (snd (overlaid e (mask_arg e rq) (snd (staged e v w)))) (tmp_out e) = Some bs"
    by blast
  note fb = finish_fallback[of e "snd (overlaid e (mask_arg e rq) (snd (staged e v w)))" bs r3 warning]
  have fb1: "fst (finish_inline e (snd (overlaid e (mask_arg e rq) (snd (staged e v w))))) =
      Return (video_response bs)"
    using fb(1) d i(2,3) bs fi t3 by blast
  have fb2: "files (snd (finish_inline e (snd (overlaid e (mask_arg e rq) (snd (staged e v w))))))
      (tmp_final e) \<noteq> None"
    using fb(2) d i(2,3) bs fi t3 by blast
  show "\<exists>bs. files (snd (overlaid e (mask_arg e rq) (snd (staged e v w)))) (tmp_out e) = Some bs \<and>
           fst (process_inline e rq w) = Return (video_response bs)"
    using bs fb1 i(1) by simp
  show "files (snd (process_inline e rq w)) (tmp_final e) \<noteq> None"
    using fb2 i(1) by simp
qed

lemma inline_success_cleanup:
  assumes f: "fresh_tmp e w" and a: "accepted e rq w v"
    and s: "fst (staged e v w) = Inr r1"
    and o: "fst (overlaid e (mask_arg e rq) (snd (staged e v w))) = Inr r2"
    and t: "decode (stdout r2) = Some out"
    and fi: "fst (finalized e (snd (overlaid e (mask_arg e rq) (snd (staged e v w))))) = Inr r3"
  shows "status (finalize (fst (process_inline e rq w))) = 200"
    and "files (snd (process_inline e rq w)) = files w"
proof -
  note d = fresh_tmpD[OF f]
  note i = inline_to_finish[OF f a s o t]
  note fs = finish_success[of e "snd (overlaid e (mask_arg e rq) (snd (staged e v w)))" r3]
  obtain bs where "fst (finish_inline e (snd (overlaid e (mask_arg e rq) (snd (staged e v w))))) =
      Return (video_response bs)"
    using fs(1) d i(2,3,4) fi by blast
  then show "status (finalize (fst (process_inline e rq w))) = 200"
    by (simp add: i(1) finalize_def video_response_def)
  have "files (snd (finish_inline e (snd (overlaid e (mask_arg e rq) (snd (staged e v w)))))) =
      (files (snd (overlaid e (mask_arg e rq) (snd (staged e v w)))))
        (tmp_in e := None, tmp_interm e := None, tmp_out e := None, tmp_final e := None)"
    using fs(2) d i(2,3,4) fi by blast
  also have "\<dots> = (files w)(tmp_final e := None)"
    by (simp add: i(5))
  also have "\<dots> = files w"
    using d by (auto simp: fun_eq_iff)
  finally show "files (snd (process_inline e rq w)) = files w"
    by (simp add: i(1))
qed

lemma upload_failure:
  assumes v: "video rq = Some v" and u: "uuid_format (uuid4 e)"
    and r: "fst (upload_run e v w) = Inl (CalledProcessError err)"
  shows "upload e rq w = (error_reply (str ''Processing failed'') err, snd (upload_run e v w))"
proof -
  have "input_path e \<noteq> upload_dir (base_dir e)"
    by (simp add: upload_names(2)[OF u] upload_dir_eq)
  then show ?thesis
    using v r unfolding upload_def
    by (auto simp: Let_def split: prod.splits sum.splits)
qed

lemma length_str_of_path2:
  "length (str_of_path (b @ [x, y])) = length (concat (map ((#) 47) b)) + length x + length y + 2"
  by (simp add: str_of_path_def)

lemma upload_paths_differ:
  assumes u: "uuid_format (uuid4 e)"
  shows "str_of_path (input_path e) \<noteq> str_of_path (output_path e)"
proof -
  have "length (str_of_path (input_path e)) \<noteq> length (str_of_path (output_path e))"
    by (simp add: upload_names[OF u] length_str_of_path2 str_simps)
  then show ?thesis by auto
qed

lemma upload_run_keeps_upload:
  assumes u: "uuid_format (uuid4 e)"
  shows "files (snd (upload_run e v w)) (str_of_path (input_path e)) = Some v"
proof -
  have "last (upload_cmd e) = str_of_path (output_path e)"
    by (simp add: upload_cmd_def overlay_cmd_def)
  then show ?thesis
    using upload_paths_differ[OF u]
    by (auto simp: upload_run_def subprocess_run_def create_file_def Let_def split: option.splits)
qed

lemma upload_success:
  assumes v: "video rq = Some v" and u: "uuid_format (uuid4 e)"
    and r: "fst (upload_run e v w) = Inr ok"
  shows "upload e rq w =
           (Return (jsonify 200 [(''processed_url'', str ''/processed/'' @ out_name e)]),
            snd (upload_run e v w))"
proof -
  have "input_path e \<noteq> upload_dir (base_dir e)"
    by (simp add: upload_names(2)[OF u] upload_dir_eq)
  then show ?thesis
    using v r unfolding upload_def
    by (auto simp: Let_def split: prod.splits sum.splits)
qed

lemma exit_nonzeroD: "exit_nonzero r \<Longrightarrow> \<exists>err. r = Inl (CalledProcessError err)"
  by (auto simp: exit_nonzero_def split: sum.splits run_error.splits)

lemma exit_nonzero_simps:
  "exit_nonzero (Inl (CalledProcessError err))" "\<not> exit_nonzero (Inl StartError)"
  "\<not> exit_nonzero (Inr ok)"
  by (simp_all add: exit_nonzero_def)

text \<open>
  What the views answer to a tool failure when the captured standard error is UTF-8:
  the JSON error whose \<open>details\<close> is the decoded text.
\<close>

lemma failure_details_when_text:
  "(video rq = Some v \<and> uuid_format (uuid4 e) \<and>
    fst (upload_run e v w) = Inl (CalledProcessError err) \<and> decode (stderr err) = Some d \<longrightarrow>
      fst (upload e rq w) =
        Return (jsonify 500 [(''error'', str ''Processing failed''), (''details'', d)])) \<and>
   (fresh_tmp e w \<and> accepted e rq w v \<and>
    fst (staged e v w) = Inl (CalledProcessError err) \<and> decode (stderr err) = Some d \<longrightarrow>
      fst (process_inline e rq w) =
        Return (jsonify 500 [(''error'', str ''Failed to convert WebM''), (''details'', d)])) \<and>
   (fresh_tmp e w \<and> accepted e rq w v \<and> \<not> isl (fst (staged e v w)) \<and>
    fst (overlaid e (mask_arg e rq) (snd (staged e v w))) = Inl (CalledProcessError err) \<and>
    decode (stderr err) = Some d \<longrightarrow>
      fst (process_inline e rq w) =
        Return (jsonify 500 [(''error'', str ''Processing failed''), (''details'', d)]))"
proof (intro conjI impI)
  assume "video rq = Some v \<and> uuid_format (uuid4 e) \<and>
    fst (upload_run e v w) = Inl (CalledProcessError err) \<and> decode (stderr err) = Some d"
  then show "fst (upload e rq w) =
      Return (jsonify 500 [(''error'', str ''Processing failed''), (''details'', d)])"
    using upload_failure[of rq v e w err] by (simp add: error_reply_def)
next
  assume "fresh_tmp e w \<and> accepted e rq w v \<and>
    fst (staged e v w) = Inl (CalledProcessError err) \<and> decode (stderr err) = Some d"
  then show "fst (process_inline e rq w) =
      Return (jsonify 500 [(''error'', str ''Failed to convert WebM''), (''details'', d)])"
    using inline_stage_failure[of e w rq v err] by (simp add: error_reply_def)
next
  assume a: "fresh_tmp e w \<and> accepted e rq w v \<and> \<not> isl (fst (staged e v w)) \<and>
    fst (overlaid e (mask_arg e rq) (snd (staged e v w))) = Inl (CalledProcessError err) \<and>
    decode (stderr err) = Some d"
  then obtain r1 where "fst (staged e v w) = Inr r1"
    by (cases "fst (staged e v w)") auto
  with a show "fst (process_inline e rq w) =
      Return (jsonify 500 [(''error'', str ''Processing failed''), (''details'', d)])"
    using inline_overlay_failure[of e w rq v r1 err] by (simp add: error_reply_def)
qed

text \<open>
  What \<open>/process-inline\<close> answers when the finalization transcode exits non-zero after a
  successful overlay step, and the captured streams are UTF-8: status 200 and the
  content that the overlay step's output file had after the overlay step.
\<close>

lemma fallback_serves_overlay_output:
  assumes "fresh_tmp e w" and "accepted e rq w v"
    and "fst (staged e v w) = Inr r1"
    and "fst (overlaid e (mask_arg e rq) (snd (staged e v w))) = Inr r2"
    and "decode (stdout r2) = Some out"
    and "fst (finalized e (snd (overlaid e (mask_arg e rq) (snd (staged e v w))))) =
           Inl (CalledProcessError r3)"
    and "decode (stderr r3) = Some warning"
  shows "\<exists>bs. files (snd (overlaid e (mask_arg e rq) (snd (staged e v w)))) (tmp_out e) = Some bs \<and>
           status (finalize (fst (process_inline e rq w))) = 200 \<and>
           body (finalize (fst (process_inline e rq w))) = Raw bs"
proof -
  from inline_fallback(1)[OF assms]
  obtain bs where bs: "files (snd (overlaid e (mask_arg e rq) (snd (staged e v w)))) (tmp_out e) = Some bs"
    and r: "fst (process_inline e rq w) = Return (video_response bs)"
    by blast
  show ?thesis
    using bs by (intro exI[of _ bs]) (simp add: r finalize_def video_response_def)
qed

section \<open>The example deployment\<close>

lemmas inline_defs = process_inline_def overlay_inline_def finish_inline_def respond_inline_def
  error_reply_def decode_def staged_def
  overlaid_def finalized_def subprocess_run_def create_file_def mask_name_of_def mask_path_of_def
  masks_dir_def truediv_def parse_parts_def split_on_def str_of_path_def isalnum_def
  char_isalnum_def ascii_alnum_def stage_cmd_def overlay_cmd_def final_cmd_def
  overlay_script_def mask_arg_def accepted_def fresh_tmp_def

lemma decode_boom: "decode ''boom'' = Some (str ''boom'')"
  by (simp add: decode_def str_simps)

lemma decode_ok: "decode ''ok'' = Some (str ''ok'')"
  by (simp add: decode_def str_simps)

lemma decode_FF: "decode [CHR 0xFF] = None"
  by (simp add: decode_def)

lemma ex_fresh: "fresh_tmp (ex_env k) ex_world"
  by (simp add: fresh_tmp_def ex_defs str_simps)

lemma ex_bad_fresh: "fresh_tmp (ex_env_bad k) ex_world"
  by (simp add: fresh_tmp_def ex_defs str_simps)

lemma ex_accepted: "accepted (ex_env k) (ex_request ProcessInline None) ex_world ''webm''"
  by (simp add: ex_defs inline_defs str_simps)

lemma ex_bad_accepted: "accepted (ex_env_bad k) (ex_request ProcessInline None) ex_world ''webm''"
  by (simp add: ex_defs inline_defs str_simps)

lemma ex_staged_ok:
  "k \<noteq> Some Staging \<Longrightarrow> fst (staged (ex_env k) ''webm'' ex_world) =
     Inr \<lparr>returncode = 0, stdout = ''ok'', stderr = [], written = Some ''video''\<rparr>"
  by (simp add: ex_defs inline_defs str_simps Let_def)

lemma ex_staged_fail:
  "fst (staged (ex_env (Some Staging)) ''webm'' ex_world) =
     Inl (CalledProcessError
            \<lparr>returncode = 1, stdout = [], stderr = ''boom'', written = None\<rparr>)"
  by (simp add: ex_defs inline_defs str_simps Let_def)

lemma ex_overlaid_ok:
  "k \<noteq> Some Overlaying \<Longrightarrow> fst (overlaid (ex_env k) mk w3) =
     Inr \<lparr>returncode = 0, stdout = ''ok'', stderr = [], written = Some ''video''\<rparr>"
  by (simp add: ex_defs inline_defs str_simps Let_def)

lemma ex_overlaid_fail:
  "fst (overlaid (ex_env (Some Overlaying)) mk w3) =
     Inl (CalledProcessError
            \<lparr>returncode = 1, stdout = [], stderr = ''boom'', written = None\<rparr>)"
  by (simp add: ex_defs inline_defs str_simps Let_def)

lemma ex_finalized_fail:
  "fst (finalized (ex_env (Some Finalizing)) w5) =
     Inl (CalledProcessError
            \<lparr>returncode = 1, stdout = [], stderr = ''boom'', written = None\<rparr>)"
  by (simp add: ex_defs inline_defs str_simps Let_def)

lemma ex_uuid: "uuid_format (uuid4 (ex_env k))"
  by (simp add: ex_env_def uuid_format_def hex_digit_def str_simps upt_rec[of 0] upt_rec[of "Suc _"] upt_rec[of "numeral _"])

lemma ex_upload_run_fail:
  "fst (upload_run (ex_env (Some Overlaying)) v w) =
     Inl (CalledProcessError
            \<lparr>returncode = 1, stdout = [], stderr = ''boom'', written = None\<rparr>)"
  by (simp add: ex_defs upload_run_def upload_cmd_def overlay_cmd_def subprocess_run_def
        str_simps Let_def)

lemma ex_upload_run_ok:
  "k \<noteq> Some Overlaying \<Longrightarrow> fst (upload_run (ex_env k) v w) =
     Inr \<lparr>returncode = 0, stdout = ''ok'', stderr = [], written = Some ''video''\<rparr>"
  by (simp add: ex_defs upload_run_def upload_cmd_def overlay_cmd_def subprocess_run_def
        str_simps Let_def)

section \<open>Response headers\<close>

lemma length_lower: "length (lower s) = length s"
  by (simp add: lower_def)

lemma lower_neq_length: "length a \<noteq> length b \<Longrightarrow> lower a \<noteq> lower b"
  using length_lower by metis

lemma header_values_set_same: "header_values k (header_set k v hs) = [v]"
  by (induction hs) (auto simp: header_values_def header_set_def)

lemma header_values_set_other:
  "lower k' \<noteq> lower k \<Longrightarrow> header_values k (header_set k' v hs) = header_values k hs"
  by (induction hs) (auto simp: header_values_def header_set_def)

lemma header_values_Cons_other:
  "lower k' \<noteq> lower k \<Longrightarrow> header_values k ((k', v) # hs) = header_values k hs"
  by (simp add: header_values_def)

lemma header_in_values: "header_in k hs \<longleftrightarrow> header_values k hs \<noteq> []"
  by (induction hs) (auto simp: header_in_def header_values_def)

lemma acao_other:
  "lower ''Access-Control-Allow-Methods'' \<noteq> lower ''Access-Control-Allow-Origin''"
  "lower ''Access-Control-Allow-Headers'' \<noteq> lower ''Access-Control-Allow-Origin''"
  "lower ''Content-Disposition'' \<noteq> lower ''Access-Control-Allow-Origin''"
  "lower ''Content-Type'' \<noteq> lower ''Access-Control-Allow-Origin''"
  "lower ''Allow'' \<noteq> lower ''Access-Control-Allow-Origin''"
  by (rule lower_neq_length, simp)+

lemma allow_origin_jsonify: "allow_origin_values (jsonify c obj) = []"
  by (simp add: allow_origin_values_def jsonify_def header_values_Cons_other acao_other header_values_def)

lemma allow_origin_video: "allow_origin_values (video_response bs) = [cors_origin]"
  by (simp add: allow_origin_values_def video_response_def header_values_set_other
        header_values_set_same acao_other)

lemma allow_origin_error: "allow_origin_values internal_server_error = []"
  by (simp add: allow_origin_values_def internal_server_error_def header_values_Cons_other
        acao_other header_values_def)

lemma allow_origin_not_found: "allow_origin_values not_found = []"
  by (simp add: allow_origin_values_def not_found_def header_values_Cons_other
        acao_other header_values_def)

lemma allow_origin_default_options: "allow_origin_values (make_default_options_response a) = []"
  by (simp add: allow_origin_values_def make_default_options_response_def
        header_values_Cons_other acao_other header_values_def)

lemma allow_origin_handle_options: "allow_origin_values (handle_options a) = [cors_origin]"
  by (simp add: allow_origin_values_def handle_options_def Let_def header_values_set_other
        header_values_set_same acao_other)

lemma allow_origin_processed: "allow_origin_values (processed e fname w) = []"
  using allow_origin_not_found
  by (auto simp: processed_def allow_origin_values_def header_values_def split: option.splits)

lemma allow_origin_add_cors:
  "allow_origin_values (add_cors_headers r) =
     (if allow_origin_values r = [] then [cors_origin] else allow_origin_values r)"
  by (simp add: add_cors_headers_def allow_origin_values_def header_in_values
        header_values_set_other header_values_set_same acao_other)

lemma allow_origin_flask_cors:
  "allow_origin_values r = [cors_origin] \<Longrightarrow> cors_after_request e rq r = r"
  by (simp add: cors_after_request_def header_get_def allow_origin_values_def cors_origin_def)

lemma hooks_one_origin:
  "origin_ok r \<Longrightarrow> allow_origin_values (cors_after_request e rq (add_cors_headers r)) = [cors_origin]"
proof -
  assume "origin_ok r"
  then have a: "allow_origin_values (add_cors_headers r) = [cors_origin]"
    by (auto simp: origin_ok_def allow_origin_add_cors)
  then show ?thesis
    by (simp add: allow_origin_flask_cors)
qed

lemma origin_ok_simps:
  "origin_ok (jsonify c obj)" "origin_ok (video_response bs)" "origin_ok internal_server_error"
  "origin_ok not_found" "origin_ok (make_default_options_response a)"
  "origin_ok (handle_options a)" "origin_ok (processed e fname w)"
  by (simp_all add: origin_ok_def allow_origin_jsonify allow_origin_video allow_origin_error
        allow_origin_not_found allow_origin_default_options allow_origin_handle_options
        allow_origin_processed)

lemma finalize_simps:
  "finalize (Return r) = r" "finalize (Raise x) = internal_server_error"
  by (simp_all add: finalize_def)

lemma origin_ok_error_reply: "origin_ok (finalize (error_reply msg err))"
  by (simp add: error_reply_def finalize_simps origin_ok_simps split: option.splits)

lemma origin_ok_respond: "origin_ok (finalize (fst (respond_inline e p w)))"
  unfolding respond_inline_def
  by (auto simp add: origin_ok_simps finalize_simps simp del: unlinks.simps
           split: prod.splits option.splits)

lemma origin_ok_finish: "origin_ok (finalize (fst (finish_inline e w)))"
  unfolding finish_inline_def
  by (auto simp add: origin_ok_respond origin_ok_simps finalize_simps
           split: prod.splits sum.splits option.splits run_error.splits)

lemma origin_ok_overlay: "origin_ok (finalize (fst (overlay_inline e mk w)))"
  unfolding overlay_inline_def
  by (auto simp add: origin_ok_finish origin_ok_error_reply origin_ok_simps finalize_simps
           simp del: unlinks.simps
           split: prod.splits sum.splits option.splits run_error.splits)

lemma origin_ok_inline: "origin_ok (finalize (fst (process_inline e rq w)))"
  unfolding process_inline_def
  by (auto simp add: Let_def origin_ok_overlay origin_ok_error_reply origin_ok_simps
           finalize_simps simp del: unlinks.simps
           split: prod.splits sum.splits option.splits run_error.splits)

lemma origin_ok_upload: "origin_ok (finalize (fst (upload e rq w)))"
  unfolding upload_def
  by (auto simp add: Let_def origin_ok_error_reply origin_ok_simps finalize_simps
           split: prod.splits sum.splits option.splits run_error.splits)

lemma origin_ok_dispatch: "origin_ok (finalize (fst (dispatch e rq w)))"
proof (cases "route rq")
  case Upload
  then show ?thesis using origin_ok_upload by (simp add: dispatch_def)
next
  case ProcessInline
  then show ?thesis using origin_ok_inline by (simp add: dispatch_def)
qed (simp_all add: dispatch_def finalize_def origin_ok_simps index_def)

section \<open>Mask validation\<close>

text \<open>
  C4. A request to \<open>/process-inline\<close> whose \<open>mask\<close> form value is not alphanumeric is
  answered with status 400, and the world after the request is the world before it: no
  child process was started (and no file was written).
\<close>

theorem invalid_mask_rejected:
  "mask rq = Some m \<Longrightarrow> \<not> isalnum (uni_alnum e) m \<Longrightarrow>
     status (finalize (fst (process_inline e rq w))) = 400 \<and>
     snd (process_inline e rq w) = w"
  by (auto simp: process_inline_def mask_name_of_def finalize_def jsonify_def
           split: option.splits)

theorem invalid_mask_rejected_witness:
  "mask (ex_request ProcessInline (Some (str ''../evil''))) = Some (str ''../evil'') \<and>
   \<not> isalnum (uni_alnum (ex_env None)) (str ''../evil'') \<and>
   status (finalize (fst (process_inline (ex_env None)
     (ex_request ProcessInline (Some (str ''../evil''))) ex_world))) = 400 \<and>
   procs (snd (process_inline (ex_env None)
     (ex_request ProcessInline (Some (str ''../evil''))) ex_world)) = []"
proof -
  have m: "mask (ex_request ProcessInline (Some (str ''../evil''))) = Some (str ''../evil'')"
    by (simp add: ex_request_def)
  have n: "\<not> isalnum (uni_alnum (ex_env None)) (str ''../evil'')"
    by (simp add: isalnum_def char_isalnum_def ascii_alnum_def str_simps)
  show ?thesis
    using m n invalid_mask_rejected [OF m n, of ex_world]
    by (simp add: ex_world_def)
qed

text \<open>
  C5. For every mask name that the validation accepts, the mask path is the base
  directory, then \<open>masks\<close>, then one more component, the name with \<open>.png\<close>; that
  component has no \<open>/\<close> and is not \<open>..\<close>, so the path is a file name directly inside
  the mask directory.
\<close>

theorem mask_path_inside_masks_dir:
  "isalnum U m \<Longrightarrow>
     mask_path_of b m = b @ [str ''masks'', m @ str ''.png''] \<and>
     mask_path_of b m = masks_dir b @ [m @ str ''.png''] \<and>
     47 \<notin> set (m @ str ''.png'') \<and> m @ str ''.png'' \<noteq> str ''..''"
proof -
  assume a: "isalnum U m"
  then have m: "47 \<notin> set m" "46 \<notin> set m" "m \<noteq> []"
    using isalnum_no_sep by blast+
  have 1: "47 \<notin> set (m @ str ''.png'')"
    using m by (simp add: str_simps)
  have 2: "m @ str ''.png'' \<noteq> str ''.''"
    using m by (cases m) (auto simp: str_simps)
  have 3: "m @ str ''.png'' \<noteq> str ''..''"
    using m by (cases m) (auto simp: str_simps)
  have "mask_path_of b m = masks_dir b @ [m @ str ''.png'']"
    unfolding mask_path_of_def using 1 2 m by (intro truediv_component) auto
  with 1 3 show ?thesis
    by (simp add: masks_dir_eq)
qed

theorem mask_path_inside_masks_dir_witness:
  "isalnum (\<lambda>c. False) (str ''dog'') \<and>
   mask_path_of [str ''app''] (str ''dog'') = [str ''app'', str ''masks'', str ''dog.png'']"
proof -
  have a: "isalnum (\<lambda>c. False) (str ''dog'')"
    by (simp add: isalnum_def char_isalnum_def ascii_alnum_def str_simps)
  show ?thesis
    using a mask_path_inside_masks_dir [OF a, of "[str ''app'']"]
    by (simp add: str_simps)
qed

text \<open>
  C10. A request to \<open>/process-inline\<close> whose \<open>mask\<close> field is present and empty is
  answered with status 400, with the error \<open>Invalid mask name\<close> when the request has the
  file field; and a request without the \<open>mask\<close> field is handled as one whose \<open>mask\<close>
  field is \<open>cat\<close>.
\<close>

theorem empty_mask_rejected:
  "mask rq = Some [] \<Longrightarrow>
     status (finalize (fst (process_inline e rq w))) = 400 \<and>
     (video rq \<noteq> None \<longrightarrow>
        process_inline e rq w =
          (Return (jsonify 400 [(''error'', str ''Invalid mask name'')]), w)) \<and>
     process_inline e (rq\<lparr>mask := None\<rparr>) w =
       process_inline e (rq\<lparr>mask := Some (str ''cat'')\<rparr>) w"
  by (auto simp: process_inline_def mask_name_of_def finalize_def jsonify_def isalnum_def
           split: option.splits)

theorem empty_mask_rejected_witness:
  "mask (ex_request ProcessInline (Some [])) = Some [] \<and>
   video (ex_request ProcessInline (Some [])) \<noteq> None \<and>
   process_inline (ex_env None) (ex_request ProcessInline (Some [])) ex_world =
     (Return (jsonify 400 [(''error'', str ''Invalid mask name'')]), ex_world)"
proof -
  have m: "mask (ex_request ProcessInline (Some [])) = Some []"
    by (simp add: ex_request_def)
  have v: "video (ex_request ProcessInline (Some [])) \<noteq> None"
    by (simp add: ex_request_def)
  show ?thesis
    using m v empty_mask_rejected [OF m, of "ex_env None" ex_world]
    by simp
qed

section \<open>Tool failures\<close>

text \<open>
  C3. When the overlay step succeeded and the finalization transcode exits non-zero,
  \<open>/process-inline\<close> answers with status 200 and the bytes of the overlay step's output.
  Evaluated where the staging transcode and the overlay step succeed and the
  finalization transcode exits with code 1 and the single byte \<open>FF\<close> on its standard
  error: the warning line decodes the standard error before the fallback is taken, the
  decoding raises, so the answer is the 500 page and not the overlay output, which is
  still on disk with the other temporary files.
\<close>

theorem undecodable_warning_breaks_fallback:
  "fresh_tmp (ex_env_bad (Some Finalizing)) ex_world \<and>
   accepted (ex_env_bad (Some Finalizing)) (ex_request ProcessInline None) ex_world ''webm'' \<and>
   \<not> isl (fst (overlaid (ex_env_bad (Some Finalizing))
      (mask_arg (ex_env_bad (Some Finalizing)) (ex_request ProcessInline None))
      (snd (staged (ex_env_bad (Some Finalizing)) ''webm'' ex_world)))) \<and>
   exit_nonzero (fst (finalized (ex_env_bad (Some Finalizing))
      (snd (overlaid (ex_env_bad (Some Finalizing))
         (mask_arg (ex_env_bad (Some Finalizing)) (ex_request ProcessInline None))
         (snd (staged (ex_env_bad (Some Finalizing)) ''webm'' ex_world)))))) \<and>
   fst (process_inline (ex_env_bad (Some Finalizing)) (ex_request ProcessInline None) ex_world) =
     Raise UnicodeDecodeError \<and>
   status (finalize (fst (process_inline (ex_env_bad (Some Finalizing))
      (ex_request ProcessInline None) ex_world))) = 500 \<and>
   files (snd (process_inline (ex_env_bad (Some Finalizing)) (ex_request ProcessInline None)
      ex_world)) (tmp_out (ex_env_bad (Some Finalizing))) = Some ''video'' \<and>
   files (snd (process_inline (ex_env_bad (Some Finalizing)) (ex_request ProcessInline None)
      ex_world)) (tmp_final (ex_env_bad (Some Finalizing))) = Some []"
  by (simp add: ex_defs inline_defs exit_nonzero_def str_simps finalize_def
        internal_server_error_def Let_def)

text \<open>
  C8. Every tool failure that is reported to the client gives a JSON error whose
  \<open>details\<close> is the tool's standard-error text, and nothing is retried. Evaluated where
  the failing tool exits with code 1 and the single byte \<open>FF\<close> on its standard error, for
  the staging transcode of \<open>/process-inline\<close> and for the overlay step of \<open>/upload\<close>: the
  decoding of the standard error raises before the JSON answer is built, and the client
  gets the 500 page, which has no JSON body and no \<open>details\<close>.
\<close>

theorem undecodable_stderr_gives_no_details:
  "exit_nonzero (fst (staged (ex_env_bad (Some Staging)) ''webm'' ex_world)) \<and>
   fst (process_inline (ex_env_bad (Some Staging)) (ex_request ProcessInline None) ex_world) =
     Raise UnicodeDecodeError \<and>
   finalize (fst (process_inline (ex_env_bad (Some Staging)) (ex_request ProcessInline None)
     ex_world)) = internal_server_error \<and>
   exit_nonzero (fst (upload_run (ex_env_bad (Some Overlaying)) ''webm'' ex_world)) \<and>
   fst (upload (ex_env_bad (Some Overlaying)) (ex_request Upload None) ex_world) =
     Raise UnicodeDecodeError \<and>
   finalize (fst (upload (ex_env_bad (Some Overlaying)) (ex_request Upload None) ex_world)) =
     internal_server_error \<and>
   status internal_server_error = 500 \<and> body internal_server_error = Html"
proof -
  have u: "uuid_format (uuid4 (ex_env_bad (Some Overlaying)))"
    using ex_uuid[of "Some Overlaying"] by (simp add: ex_env_bad_def)
  have v: "video (ex_request Upload None) = Some ''webm''"
    by (simp add: ex_request_def)
  have r: "fst (upload_run (ex_env_bad (Some Overlaying)) ''webm'' ex_world) =
     Inl (CalledProcessError
            \<lparr>returncode = 1, stdout = [], stderr = [CHR 0xFF], written = None\<rparr>)"
    by (simp add: ex_defs upload_run_def upload_cmd_def overlay_cmd_def subprocess_run_def
          str_simps Let_def)
  have up: "fst (upload (ex_env_bad (Some Overlaying)) (ex_request Upload None) ex_world) =
     Raise UnicodeDecodeError"
    using upload_failure[OF v u r] by (simp add: error_reply_def decode_FF)
  have pi: "fst (process_inline (ex_env_bad (Some Staging)) (ex_request ProcessInline None)
     ex_world) = Raise UnicodeDecodeError"
    by (simp add: ex_defs inline_defs str_simps Let_def)
  have st: "exit_nonzero (fst (staged (ex_env_bad (Some Staging)) ''webm'' ex_world))"
    by (simp add: ex_defs inline_defs exit_nonzero_def str_simps Let_def)
  show ?thesis
    using st by (simp add: up pi r exit_nonzero_simps finalize_def internal_server_error_def)
qed

section \<open>Temporary files\<close>

text \<open>
  C1. Every temporary file of a request to \<open>/process-inline\<close> is deleted before the
  response. Evaluated where the staging transcode and the overlay step succeed and the
  finalization transcode fails: the names are fresh, the answer has status 200, and the
  file that \<open>mkstemp\<close> created for the finalized output, which did not exist before the
  request, exists after it.
\<close>

theorem fallback_leaves_final_tmp_file:
  "fresh_tmp (ex_env (Some Finalizing)) ex_world \<and>
   status (finalize (fst (process_inline (ex_env (Some Finalizing))
      (ex_request ProcessInline None) ex_world))) = 200 \<and>
   files (snd (process_inline (ex_env (Some Finalizing)) (ex_request ProcessInline None) ex_world))
      (tmp_final (ex_env (Some Finalizing))) = Some [] \<and>
   files ex_world (tmp_final (ex_env (Some Finalizing))) = None"
  by (simp add: ex_defs inline_defs str_simps finalize_def video_response_def Let_def)

text \<open>
  C2. A tool that exits non-zero gives status 500 and leaves no temporary file. As
  stated for every tool this fails: in the example the finalization transcode is the
  last child process of the request, it exits non-zero, and the status is not 500.
\<close>

theorem finalization_failure_is_not_500:
  "isl (fst (finalized (ex_env (Some Finalizing))
      (snd (overlaid (ex_env (Some Finalizing))
         (mask_arg (ex_env (Some Finalizing)) (ex_request ProcessInline None))
         (snd (staged (ex_env (Some Finalizing)) ''webm'' ex_world)))))) \<and>
   last (procs (snd (process_inline (ex_env (Some Finalizing))
      (ex_request ProcessInline None) ex_world))) =
     final_cmd (tmp_out (ex_env (Some Finalizing))) (tmp_final (ex_env (Some Finalizing))) \<and>
   status (finalize (fst (process_inline (ex_env (Some Finalizing))
      (ex_request ProcessInline None) ex_world))) \<noteq> 500"
  by (simp add: ex_defs inline_defs str_simps finalize_def video_response_def Let_def)

text \<open>
  C2, as the views have it. When the staging transcode or the overlay step of
  \<open>/process-inline\<close> exits non-zero, the status is 500 and the files after the request
  are the files before it, whatever the tool printed. When the overlay step of
  \<open>/upload\<close> exits non-zero, the status is 500; this view has no temporary file, and the
  stored upload, the UUID with \<open>.webm\<close> in the upload directory, is still there after
  the request. The finalization transcode is not part of this statement.
\<close>

theorem staging_or_overlay_failure_500_and_cleanup:
  "(fresh_tmp e w \<and> accepted e rq w v \<and>
    (exit_nonzero (fst (staged e v w)) \<or>
     \<not> isl (fst (staged e v w)) \<and>
     exit_nonzero (fst (overlaid e (mask_arg e rq) (snd (staged e v w))))) \<longrightarrow>
      status (finalize (fst (process_inline e rq w))) = 500 \<and>
      files (snd (process_inline e rq w)) = files w) \<and>
   (video rq = Some v \<and> uuid_format (uuid4 e) \<and> exit_nonzero (fst (upload_run e v w)) \<longrightarrow>
      status (finalize (fst (upload e rq w))) = 500 \<and>
      input_path e = base_dir e @ [str ''uploads'', uuid4 e @ str ''.webm''] \<and>
      files (snd (upload e rq w)) (str_of_path (input_path e)) = Some v)"
proof (rule conjI; rule impI)
  assume a: "fresh_tmp e w \<and> accepted e rq w v \<and>
    (exit_nonzero (fst (staged e v w)) \<or>
     \<not> isl (fst (staged e v w)) \<and>
     exit_nonzero (fst (overlaid e (mask_arg e rq) (snd (staged e v w)))))"
  show "status (finalize (fst (process_inline e rq w))) = 500 \<and>
      files (snd (process_inline e rq w)) = files w"
  proof (cases "exit_nonzero (fst (staged e v w))")
    case True
    then obtain err where "fst (staged e v w) = Inl (CalledProcessError err)"
      using exit_nonzeroD by blast
    with a show ?thesis
      using inline_stage_failure[of e w rq v err]
      by (simp add: status_error_reply)
  next
    case False
    with a obtain r1 where r1: "fst (staged e v w) = Inr r1"
      by (cases "fst (staged e v w)") auto
    from False a obtain err where
      "fst (overlaid e (mask_arg e rq) (snd (staged e v w))) = Inl (CalledProcessError err)"
      using exit_nonzeroD by blast
    with a r1 show ?thesis
      using inline_overlay_failure[of e w rq v r1 err]
      by (simp add: status_error_reply)
  qed
next
  assume a: "video rq = Some v \<and> uuid_format (uuid4 e) \<and> exit_nonzero (fst (upload_run e v w))"
  then obtain err where "fst (upload_run e v w) = Inl (CalledProcessError err)"
    using exit_nonzeroD by blast
  with a show "status (finalize (fst (upload e rq w))) = 500 \<and>
      input_path e = base_dir e @ [str ''uploads'', uuid4 e @ str ''.webm''] \<and>
      files (snd (upload e rq w)) (str_of_path (input_path e)) = Some v"
    using upload_failure[of rq v e w err] upload_run_keeps_upload[of e v w]
      upload_names(2)[of e]
    by (simp add: status_error_reply)
qed

theorem staging_or_overlay_failure_500_and_cleanup_witness:
  "fresh_tmp (ex_env (Some Overlaying)) ex_world \<and>
   accepted (ex_env (Some Overlaying)) (ex_request ProcessInline None) ex_world ''webm'' \<and>
   \<not> isl (fst (staged (ex_env (Some Overlaying)) ''webm'' ex_world)) \<and>
   exit_nonzero (fst (overlaid (ex_env (Some Overlaying))
          (mask_arg (ex_env (Some Overlaying)) (ex_request ProcessInline None))
          (snd (staged (ex_env (Some Overlaying)) ''webm'' ex_world)))) \<and>
   status (finalize (fst (process_inline (ex_env (Some Overlaying))
      (ex_request ProcessInline None) ex_world))) = 500 \<and>
   files (snd (process_inline (ex_env (Some Overlaying))
      (ex_request ProcessInline None) ex_world)) = files ex_world \<and>
   fresh_tmp (ex_env (Some Staging)) ex_world \<and>
   accepted (ex_env (Some Staging)) (ex_request ProcessInline None) ex_world ''webm'' \<and>
   exit_nonzero (fst (staged (ex_env (Some Staging)) ''webm'' ex_world)) \<and>
   status (finalize (fst (process_inline (ex_env (Some Staging))
      (ex_request ProcessInline None) ex_world))) = 500 \<and>
   files (snd (process_inline (ex_env (Some Staging))
      (ex_request ProcessInline None) ex_world)) = files ex_world \<and>
   fresh_tmp (ex_env_bad (Some Staging)) ex_world \<and>
   accepted (ex_env_bad (Some Staging)) (ex_request ProcessInline None) ex_world ''webm'' \<and>
   exit_nonzero (fst (staged (ex_env_bad (Some Staging)) ''webm'' ex_world)) \<and>
   status (finalize (fst (process_inline (ex_env_bad (Some Staging))
      (ex_request ProcessInline None) ex_world))) = 500 \<and>
   files (snd (process_inline (ex_env_bad (Some Staging))
      (ex_request ProcessInline None) ex_world)) = files ex_world \<and>
   video (ex_request Upload None) = Some ''webm'' \<and>
   uuid_format (uuid4 (ex_env (Some Overlaying))) \<and>
   exit_nonzero (fst (upload_run (ex_env (Some Overlaying)) ''webm'' ex_world)) \<and>
   status (finalize (fst (upload (ex_env (Some Overlaying)) (ex_request Upload None) ex_world))) = 500 \<and>
   files (snd (upload (ex_env (Some Overlaying)) (ex_request Upload None) ex_world))
     (str_of_path (input_path (ex_env (Some Overlaying)))) = Some ''webm''"
proof -
  have v: "video (ex_request Upload None) = Some ''webm''"
    by (simp add: ex_request_def)
  have s1: "\<not> isl (fst (staged (ex_env (Some Overlaying)) ''webm'' ex_world))"
    by (simp add: ex_staged_ok)
  have o1: "exit_nonzero (fst (overlaid (ex_env (Some Overlaying))
          (mask_arg (ex_env (Some Overlaying)) (ex_request ProcessInline None))
          (snd (staged (ex_env (Some Overlaying)) ''webm'' ex_world))))"
    by (simp add: ex_overlaid_fail exit_nonzero_simps)
  have s2: "exit_nonzero (fst (staged (ex_env (Some Staging)) ''webm'' ex_world))"
    by (simp add: ex_staged_fail exit_nonzero_simps)
  have s3: "exit_nonzero (fst (staged (ex_env_bad (Some Staging)) ''webm'' ex_world))"
    by (simp add: ex_defs inline_defs exit_nonzero_def str_simps Let_def)
  have u1: "exit_nonzero (fst (upload_run (ex_env (Some Overlaying)) ''webm'' ex_world))"
    by (simp add: ex_upload_run_fail exit_nonzero_simps)
  note t1 = staging_or_overlay_failure_500_and_cleanup
    [of "ex_env (Some Overlaying)" ex_world "ex_request ProcessInline None" "''webm''"]
  note t2 = staging_or_overlay_failure_500_and_cleanup
    [of "ex_env (Some Staging)" ex_world "ex_request ProcessInline None" "''webm''"]
  note t3 = staging_or_overlay_failure_500_and_cleanup
    [of "ex_env_bad (Some Staging)" ex_world "ex_request ProcessInline None" "''webm''"]
  note t4 = staging_or_overlay_failure_500_and_cleanup
    [of "ex_env (Some Overlaying)" ex_world "ex_request Upload None" "''webm''"]
  show ?thesis
    using t1 t2 t3 t4 v s1 o1 s2 s3 u1 ex_uuid[of "Some Overlaying"] ex_fresh[of "Some Staging"]
      ex_fresh[of "Some Overlaying"] ex_accepted[of "Some Staging"]
      ex_accepted[of "Some Overlaying"] ex_bad_fresh[of "Some Staging"]
      ex_bad_accepted[of "Some Staging"]
    by blast
qed

section \<open>The persisted route\<close>

text \<open>
  C6. A successful \<open>POST /upload\<close> (the file field is present and the overlay step
  exits with 0) answers with status 200 and the JSON object whose \<open>processed_url\<close> is
  \<open>/processed/\<close>, the UUID of the request and \<open>_mask.mp4\<close>. The same UUID names the stored
  upload: the upload is saved as the UUID with \<open>.webm\<close> in the upload directory, and it
  is there after the request; the output name is that name's stem with \<open>_mask.mp4\<close>, in
  the processed directory.
\<close>

theorem upload_url_from_uuid:
  assumes v: "video rq = Some v" and u: "uuid_format (uuid4 e)"
    and r: "fst (upload_run e v w) = Inr ok"
  shows "finalize (fst (upload e rq w)) =
           jsonify 200 [(''processed_url'', str ''/processed/'' @ uuid4 e @ str ''_mask.mp4'')] \<and>
         in_name e = uuid4 e @ str ''.webm'' \<and>
         input_path e = base_dir e @ [str ''uploads'', in_name e] \<and>
         out_name e = uuid4 e @ str ''_mask.mp4'' \<and>
         output_path e = base_dir e @ [str ''processed'', out_name e] \<and>
         files (snd (upload e rq w)) (str_of_path (input_path e)) = Some v"
proof -
  note n = upload_names[OF u]
  note s = upload_success[OF v u r]
  have "last (upload_cmd e) = str_of_path (output_path e)"
    by (simp add: upload_cmd_def overlay_cmd_def)
  then have "files (snd (upload_run e v w)) (str_of_path (input_path e)) = Some v"
    using upload_paths_differ[OF u]
    by (auto simp: upload_run_def subprocess_run_def create_file_def Let_def split: option.splits)
  then show ?thesis
    using n s by (simp add: finalize_def)
qed

theorem upload_url_from_uuid_witness:
  "video (ex_request Upload None) = Some ''webm'' \<and>
   uuid_format (uuid4 (ex_env None)) \<and>
   \<not> isl (fst (upload_run (ex_env None) ''webm'' ex_world)) \<and>
   finalize (fst (upload (ex_env None) (ex_request Upload None) ex_world)) =
     jsonify 200 [(''processed_url'',
       str ''/processed/123e4567-e89b-42d3-a456-426614174000_mask.mp4'')] \<and>
   in_name (ex_env None) = str ''123e4567-e89b-42d3-a456-426614174000.webm'' \<and>
   files (snd (upload (ex_env None) (ex_request Upload None) ex_world))
     (str ''/app/uploads/123e4567-e89b-42d3-a456-426614174000.webm'') = Some ''webm''"
proof -
  have v: "video (ex_request Upload None) = Some ''webm''"
    by (simp add: ex_request_def)
  have r: "fst (upload_run (ex_env None) ''webm'' ex_world) =
     Inr \<lparr>returncode = 0, stdout = ''ok'', stderr = [], written = Some ''video''\<rparr>"
    by (rule ex_upload_run_ok) simp
  have i: "uuid4 (ex_env None) = str ''123e4567-e89b-42d3-a456-426614174000''"
      "base_dir (ex_env None) = [str ''app'']"
    by (simp_all add: ex_env_def)
  note t = upload_url_from_uuid [OF v ex_uuid r]
  have t1: "finalize (fst (upload (ex_env None) (ex_request Upload None) ex_world)) =
     jsonify 200 [(''processed_url'',
       str ''/processed/123e4567-e89b-42d3-a456-426614174000_mask.mp4'')]"
    using t by (simp add: i str_simps)
  have t2: "in_name (ex_env None) = str ''123e4567-e89b-42d3-a456-426614174000.webm''"
    using t by (simp add: i str_simps)
  have p: "str_of_path (input_path (ex_env None)) =
     str ''/app/uploads/123e4567-e89b-42d3-a456-426614174000.webm''"
    using t by (simp add: t2 i str_simps str_of_path_def)
  have t6: "files (snd (upload (ex_env None) (ex_request Upload None) ex_world))
     (str ''/app/uploads/123e4567-e89b-42d3-a456-426614174000.webm'') = Some ''webm''"
    using t by (simp only: p)
  show ?thesis
    using v ex_uuid[of None] t1 t2 t6 by (simp add: r)
qed

text \<open>
  C9. Every child process that \<open>/upload\<close> starts is the one overlay command, and it is
  started once when the file field is present; its mask argument is the fixed
  \<open>masks/cat.png\<close> under the base directory; and the view's result does not depend on
  the \<open>mask\<close> form field.
\<close>

theorem upload_always_default_mask:
  "(\<exists>n\<le>1. procs (snd (upload e rq w)) = procs w @ take n [upload_cmd e]) \<and>
   (video rq = Some v \<and> uuid_format (uuid4 e) \<longrightarrow>
      procs (snd (upload e rq w)) = procs w @ [upload_cmd e]) \<and>
   upload_cmd e =
     [str ''python'', overlay_script (base_dir e), str_of_path (input_path e),
      str_of_path (base_dir e @ [str ''masks'', str ''cat.png'']),
      str_of_path (output_path e)] \<and>
   upload e (rq\<lparr>mask := m\<rparr>) w = upload e rq w"
proof -
  have 1: "\<exists>n\<le>1. procs (snd (upload e rq w)) = procs w @ take n [upload_cmd e]"
    by (rule upload_procs)
  have 2: "procs (snd (upload e rq w)) = procs w @ [upload_cmd e]"
    if a: "video rq = Some v \<and> uuid_format (uuid4 e)"
  proof -
    have "input_path e \<noteq> upload_dir (base_dir e)"
      using a by (simp add: upload_names(2) upload_dir_eq)
    then have "snd (upload e rq w) = snd (upload_run e v w)"
      using a unfolding upload_def
      by (auto simp: Let_def split: prod.splits sum.splits run_error.splits)
    then show ?thesis
      by (simp add: upload_run_def subprocess_run_procs create_file_def)
  qed
  have 3: "upload_cmd e =
     [str ''python'', overlay_script (base_dir e), str_of_path (input_path e),
      str_of_path (base_dir e @ [str ''masks'', str ''cat.png'']),
      str_of_path (output_path e)]"
    by (simp add: upload_cmd_def overlay_cmd_def MASK_PATH_eq)
  have 4: "upload e (rq\<lparr>mask := m\<rparr>) w = upload e rq w"
    by (simp add: upload_def)
  show ?thesis
    using 1 2 3 4 by blast
qed

theorem upload_always_default_mask_witness:
  "video (ex_request Upload (Some (str ''dog''))) = Some ''webm'' \<and>
   uuid_format (uuid4 (ex_env None)) \<and>
   procs (snd (upload (ex_env None) (ex_request Upload (Some (str ''dog''))) ex_world)) =
     [[str ''python'', str ''/app/overlay_processor.py'',
       str ''/app/uploads/123e4567-e89b-42d3-a456-426614174000.webm'',
       str ''/app/masks/cat.png'',
       str ''/app/processed/123e4567-e89b-42d3-a456-426614174000_mask.mp4'']]"
proof -
  have v: "video (ex_request Upload (Some (str ''dog''))) = Some ''webm''"
    by (simp add: ex_request_def)
  have i: "uuid4 (ex_env None) = str ''123e4567-e89b-42d3-a456-426614174000''"
      "base_dir (ex_env None) = [str ''app'']"
    by (simp_all add: ex_env_def)
  have o: "overlay_script [str ''app''] = str ''/app/overlay_processor.py''"
    by (simp add: overlay_script_def truediv_component str_simps str_of_path_def)
  note n = upload_names[OF ex_uuid[of None]]
  have p1: "str_of_path (input_path (ex_env None)) =
     str ''/app/uploads/123e4567-e89b-42d3-a456-426614174000.webm''"
    by (simp add: n i str_simps str_of_path_def)
  have p2: "str_of_path (output_path (ex_env None)) =
     str ''/app/processed/123e4567-e89b-42d3-a456-426614174000_mask.mp4''"
    by (simp add: n i str_simps str_of_path_def)
  have p3: "str_of_path ([str ''app''] @ [str ''masks'', str ''cat.png'']) = str ''/app/masks/cat.png''"
    by (simp add: str_simps str_of_path_def)
  note t = upload_always_default_mask
      [of "ex_env None" "ex_request Upload (Some (str ''dog''))" ex_world "''webm''"]
  have c: "upload_cmd (ex_env None) =
     [str ''python'', str ''/app/overlay_processor.py'',
       str ''/app/uploads/123e4567-e89b-42d3-a456-426614174000.webm'',
       str ''/app/masks/cat.png'',
       str ''/app/processed/123e4567-e89b-42d3-a456-426614174000_mask.mp4'']"
    using t by (simp only: i o p1 p2 p3)
  have "procs (snd (upload (ex_env None) (ex_request Upload (Some (str ''dog''))) ex_world)) =
      procs ex_world @ [upload_cmd (ex_env None)]"
    using t v ex_uuid[of None] by blast
  then show ?thesis
    using v ex_uuid[of None] by (simp add: c ex_world_def)
qed

section \<open>Cross-origin headers\<close>

text \<open>
  C7. Every response of the service (of any view, the answer to an escaped exception,
  the explicit and the automatic \<open>OPTIONS\<close> responses, and the answer to a request that
  matches no route) carries, after the \<open>after_request\<close> functions have run, exactly one
  value for \<open>Access-Control-Allow-Origin\<close>, the fixed origin.
\<close>

theorem one_allow_origin_value:
  "allow_origin_values (fst (serve e rq w)) = [cors_origin] \<and>
   length (allow_origin_values (fst (serve e rq w))) = 1"
proof -
  have "allow_origin_values (fst (serve e rq w)) = [cors_origin]"
    using hooks_one_origin[OF origin_ok_dispatch, of e rq e rq w]
    by (cases "dispatch e rq w") (simp add: serve_def)
  then show ?thesis by simp
qed


theorem one_allow_origin_value_witness:
  "allow_origin_values (fst (serve (ex_env None) (ex_request ProcessInline None) ex_world)) =
     [''https://brookswimer.github.io''] \<and>
   allow_origin_values (fst (serve (ex_env None)
     (ex_request ProcessInline (Some (str ''../evil''))) ex_world)) =
     [''https://brookswimer.github.io''] \<and>
   allow_origin_values (fst (serve (ex_env None) (ex_request (HandleOptions ''OPTIONS'') None)
     ex_world)) = [''https://brookswimer.github.io'']"
  using one_allow_origin_value [of "ex_env None" "ex_request ProcessInline None" ex_world]
    one_allow_origin_value [of "ex_env None" "ex_request ProcessInline (Some (str ''../evil''))"
      ex_world]
    one_allow_origin_value [of "ex_env None" "ex_request (HandleOptions ''OPTIONS'') None"
      ex_world]
  by (simp add: cors_origin_def)

end
